theory Spec2Isabelle
  imports Main
begin

section \<open>JavaScript values\<close>

text \<open>
  The handlers assemble plain objects and the dispatch layer inspects a parsed error body,
  so one type of values serves both. An object is the list of its own properties in
  insertion order. Strings are byte strings (UTF-8). A number is represented by an integer;
  how a number prints is left to the platform.
\<close>

datatype jsval =
    JUndefined
  | JNull
  | JBool bool
  | JNum int
  | JStr string
  | JArr "jsval list"
  | JObj "(string \<times> jsval) list"

text \<open>Truthiness, as tested by \<^verbatim>\<open>if (x)\<close>, \<^verbatim>\<open>x || y\<close> and \<^verbatim>\<open>x && y\<close>.\<close>

fun truthy :: "jsval \<Rightarrow> bool" where
  "truthy JUndefined = False"
| "truthy JNull = False"
| "truthy (JBool b) = b"
| "truthy (JNum n) = (n \<noteq> 0)"
| "truthy (JStr s) = (s \<noteq> [])"
| "truthy (JArr xs) = True"
| "truthy (JObj kvs) = True"

text \<open>An optional string input of a tool: absent is \<^verbatim>\<open>undefined\<close>.\<close>

fun opt_str :: "string option \<Rightarrow> jsval" where
  "opt_str None = JUndefined"
| "opt_str (Some s) = JStr s"

text \<open>The string of an optional input that is known to be given.\<close>

definition str_of :: "string option \<Rightarrow> string" where
  "str_of x = (case x of None \<Rightarrow> [] | Some s \<Rightarrow> s)"

definition given :: "string option \<Rightarrow> bool" where
  "given x = truthy (opt_str x)"

text \<open>\<^verbatim>\<open>o.k = v\<close>: overwrite in place, or append a new property.\<close>

fun set_prop :: "(string \<times> 'a) list \<Rightarrow> string \<Rightarrow> 'a \<Rightarrow> (string \<times> 'a) list" where
  "set_prop [] k v = [(k, v)]"
| "set_prop ((k', v') # kvs) k v =
     (if k' = k then (k, v) # kvs else (k', v') # set_prop kvs k v)"

text \<open>\<^verbatim>\<open>delete o.k\<close>.\<close>

definition delete_prop :: "(string \<times> jsval) list \<Rightarrow> string \<Rightarrow> (string \<times> jsval) list" where
  "delete_prop kvs k = filter (\<lambda>kv. fst kv \<noteq> k) kvs"

text \<open>Reading a property: \<^verbatim>\<open>undefined\<close> when the object has none of that name.\<close>

definition get_prop :: "(string \<times> jsval) list \<Rightarrow> string \<Rightarrow> jsval" where
  "get_prop kvs k = (case map_of kvs k of None \<Rightarrow> JUndefined | Some v \<Rightarrow> v)"


subsection \<open>Errors\<close>

text \<open>
  What a \<^verbatim>\<open>throw\<close> or a rejected promise carries. \<open>MessageBirdApiError\<close> is the class of
  client.ts; \<open>JsError name message\<close> is any other \<^verbatim>\<open>Error\<close> raised by the platform
  (\<^verbatim>\<open>TypeError\<close>, \<^verbatim>\<open>SyntaxError\<close>, ...).
\<close>

datatype exn =
    MessageBirdApiError nat string
  | JsError string string

fun message :: "exn \<Rightarrow> string" where
  "message (MessageBirdApiError st m) = m"
| "message (JsError nm m) = m"

subsection \<open>String conversion\<close>

definition digit_char :: "nat \<Rightarrow> char" where
  "digit_char d = ''0123456789'' ! d"

fun nat_to_string :: "nat \<Rightarrow> string" where
  "nat_to_string n =
     (if n < 10 then [digit_char n] else nat_to_string (n div 10) @ [digit_char (n mod 10)])"

declare nat_to_string.simps [simp del]

text \<open>Plain decimal, for the example platform.\<close>

definition int_to_string :: "int \<Rightarrow> string" where
  "int_to_string i = (if i < 0 then CHR ''-'' # nat_to_string (nat (- i)) else nat_to_string (nat i))"

fun join :: "string \<Rightarrow> string list \<Rightarrow> string" where
  "join sep [] = []"
| "join sep [x] = x"
| "join sep (x # y # ys) = x @ sep @ join sep (y # ys)"

text \<open>
  The conversion a template literal \<^verbatim>\<open>`${x}`\<close> applies to its operand; \<open>num\<close> is the
  platform's printing of numbers. An array is the join of its elements by commas, with
  \<^verbatim>\<open>null\<close> and \<^verbatim>\<open>undefined\<close> elements printed as nothing. An object is converted by its
  \<^verbatim>\<open>toString\<close>: the inherited one prints \<^verbatim>\<open>[object Object]\<close>, but an own property of that
  name hides it, and as no value of this type is a function the conversion then throws.
\<close>

fun to_string :: "(int \<Rightarrow> string) \<Rightarrow> jsval \<Rightarrow> exn + string"
  and join_elements :: "(int \<Rightarrow> string) \<Rightarrow> jsval list \<Rightarrow> exn + string list" where
  "to_string num JUndefined = Inr ''undefined''"
| "to_string num JNull = Inr ''null''"
| "to_string num (JBool b) = Inr (if b then ''true'' else ''false'')"
| "to_string num (JNum n) = Inr (num n)"
| "to_string num (JStr s) = Inr s"
| "to_string num (JArr xs) =
     (case join_elements num xs of Inl e \<Rightarrow> Inl e | Inr ss \<Rightarrow> Inr (join '','' ss))"
| "to_string num (JObj kvs) =
     (if map_of kvs ''toString'' \<noteq> None
      then Inl (JsError ''TypeError'' ''Cannot convert object to primitive value'')
      else Inr ''[object Object]'')"
| "join_elements num [] = Inr []"
| "join_elements num (x # xs) =
     (case (if x = JUndefined \<or> x = JNull then Inr [] else to_string num x) of
        Inl e \<Rightarrow> Inl e
      | Inr s \<Rightarrow> (case join_elements num xs of Inl e \<Rightarrow> Inl e | Inr ss \<Rightarrow> Inr (s # ss)))"

section \<open>client.ts: the dispatch layer\<close>

subsection \<open>auth.ts\<close>

definition CONVERSATIONS_BASE_URL :: string where
  "CONVERSATIONS_BASE_URL = ''https://conversations.messagebird.com/v1''"

definition INTEGRATIONS_BASE_URL :: string where
  "INTEGRATIONS_BASE_URL = ''https://integrations.messagebird.com''"

definition REST_BASE_URL :: string where
  "REST_BASE_URL = ''https://rest.messagebird.com''"

datatype ApiTarget = conversations | integrations | rest

fun getBaseUrl :: "ApiTarget \<Rightarrow> string" where
  "getBaseUrl conversations = CONVERSATIONS_BASE_URL"
| "getBaseUrl integrations = INTEGRATIONS_BASE_URL"
| "getBaseUrl rest = REST_BASE_URL"

subsection \<open>The platform\<close>

text \<open>
  A response as \<^verbatim>\<open>fetch\<close> resolves it. \<open>status\<close> is the HTTP status code, a number of at
  most three digits. \<open>json\<close> is the outcome of \<^verbatim>\<open>response.json()\<close>: the parsed body, or the
  error the promise rejects with when the body is not JSON.
\<close>

record response =
  status :: nat
  statusText :: string
  json :: "exn + jsval"

text \<open>\<^verbatim>\<open>response.ok\<close>: the status is in the range 200-299.\<close>

definition ok :: "response \<Rightarrow> bool" where
  "ok r = (200 \<le> status r \<and> status r \<le> 299)"

datatype http_method = GET | POST | PUT | PATCH | DELETE

text \<open>What is handed to \<^verbatim>\<open>fetch\<close>: the URL and the init object.\<close>

record request =
  url :: string
  request_method :: http_method
  headers :: "(string \<times> string) list"
  body :: "string option"

text \<open>
  The parts of the runtime the code calls and the process-wide credential:
  \<^verbatim>\<open>fetch\<close> (which resolves to a response or rejects), \<^verbatim>\<open>JSON.stringify(x)\<close>,
  \<^verbatim>\<open>JSON.stringify(x, null, 2)\<close>, \<^verbatim>\<open>JSON.parse\<close>, the printing of a number inside a
  template literal, and \<^verbatim>\<open>API_KEY\<close> of auth.ts.
\<close>

record platform =
  fetch :: "request \<Rightarrow> exn + response"
  JSON_stringify :: "jsval \<Rightarrow> string"
  JSON_stringify_pretty :: "jsval \<Rightarrow> string"
  JSON_parse :: "string \<Rightarrow> exn + jsval"
  Number_toString :: "int \<Rightarrow> string"
  API_KEY :: string

subsection \<open>URLSearchParams\<close>

text \<open>
  The query string is built by the platform's \<^verbatim>\<open>URLSearchParams\<close>: \<^verbatim>\<open>set\<close> overwrites the
  first entry of that name and removes the others, or appends; \<^verbatim>\<open>toString\<close> is the
  application/x-www-form-urlencoded serialiser (a space becomes \<^verbatim>\<open>+\<close>, the bytes
  \<^verbatim>\<open>A-Z a-z 0-9 * - . _\<close> stay, every other byte becomes \<^verbatim>\<open>%XX\<close>).
\<close>

type_synonym URLSearchParams = "(string \<times> string) list"

fun params_set :: "URLSearchParams \<Rightarrow> string \<Rightarrow> string \<Rightarrow> URLSearchParams" where
  "params_set [] k v = [(k, v)]"
| "params_set ((k', v') # ps) k v =
     (if k' = k then (k, v) # filter (\<lambda>p. fst p \<noteq> k) ps else (k', v') # params_set ps k v)"

definition hex_char :: "nat \<Rightarrow> char" where
  "hex_char d = ''0123456789ABCDEF'' ! d"

definition urlencoded_plain :: "char \<Rightarrow> bool" where
  "urlencoded_plain c =
     (c \<in> set ''ABCDEFGHIJKLMNOPQRSTUVWXYZabcdefghijklmnopqrstuvwxyz0123456789*-._'')"

definition urlencode_byte :: "char \<Rightarrow> string" where
  "urlencode_byte c =
     (if c = CHR '' '' then ''+''
      else if urlencoded_plain c then [c]
      else [CHR ''%'', hex_char (of_char c div 16), hex_char (of_char c mod 16)])"

definition urlencode :: "string \<Rightarrow> string" where
  "urlencode s = concat (map urlencode_byte s)"

definition params_toString :: "URLSearchParams \<Rightarrow> string" where
  "params_toString ps = join ''&'' (map (\<lambda>(k, v). urlencode k @ ''='' @ urlencode v) ps)"

subsection \<open>apiRequest\<close>

text \<open>The arguments of \<^verbatim>\<open>apiRequest\<close>; \<open>queryParams\<close> lists the entries of the object
  in the order \<^verbatim>\<open>Object.entries\<close> yields them.\<close>

record api_call =
  endpoint :: string
  call_method :: http_method
  call_body :: "jsval option"
  queryParams :: "(string \<times> string option) list option"
  target :: ApiTarget

text \<open>The loop over \<^verbatim>\<open>Object.entries(queryParams)\<close>.\<close>

fun collect_params :: "(string \<times> string option) list \<Rightarrow> URLSearchParams \<Rightarrow> URLSearchParams" where
  "collect_params [] params = params"
| "collect_params ((key, val) # es) params =
     collect_params es
       (case val of
          None \<Rightarrow> params
        | Some v \<Rightarrow> if v \<noteq> [] then params_set params key v else params)"

definition build_url :: "api_call \<Rightarrow> string" where
  "build_url c =
     (let url = getBaseUrl (target c) @ endpoint c in
      case queryParams c of
        None \<Rightarrow> url
      | Some qp \<Rightarrow>
          (let qs = params_toString (collect_params qp []) in
           if qs \<noteq> [] then url @ ''?'' @ qs else url))"

definition build_request :: "platform \<Rightarrow> api_call \<Rightarrow> request" where
  "build_request P c =
     \<lparr> url = build_url c,
       request_method = call_method c,
       headers =
         [(''Authorization'', ''AccessKey '' @ API_KEY P), (''Accept'', ''application/json'')]
         @ (case call_body c of
              Some b \<Rightarrow> [(''Content-Type'', ''application/json'')]
            | None \<Rightarrow> []),
       body = map_option (JSON_stringify P) (call_body c) \<rparr>"

text \<open>\<^verbatim>\<open>x.k\<close>: throws on \<^verbatim>\<open>null\<close> and \<^verbatim>\<open>undefined\<close>; only objects carry the names
  read here (\<^verbatim>\<open>errors\<close>, \<^verbatim>\<open>description\<close>).\<close>

fun member :: "jsval \<Rightarrow> string \<Rightarrow> exn + jsval" where
  "member JNull k =
     Inl (JsError ''TypeError'' (''Cannot read properties of null (reading '' @ [CHR 0x27] @ k @ [CHR 0x27] @ '')''))"
| "member JUndefined k =
     Inl (JsError ''TypeError'' (''Cannot read properties of undefined (reading '' @ [CHR 0x27] @ k @ [CHR 0x27] @ '')''))"
| "member (JObj kvs) k = Inr (get_prop kvs k)"
| "member v k = Inr JUndefined"

text \<open>\<^verbatim>\<open>x?.[0]\<close>: the first element of an array, the property \<^verbatim>\<open>"0"\<close> of an object,
  the first character of a string.\<close>

fun opt_index0 :: "jsval \<Rightarrow> jsval" where
  "opt_index0 (JArr xs) = (case xs of [] \<Rightarrow> JUndefined | x # _ \<Rightarrow> x)"
| "opt_index0 (JObj kvs) = get_prop kvs ''0''"
| "opt_index0 (JStr s) = (if s = [] then JUndefined else JStr (take 1 s))"
| "opt_index0 v = JUndefined"

text \<open>\<^verbatim>\<open>x?.k\<close>.\<close>

fun opt_member :: "jsval \<Rightarrow> string \<Rightarrow> jsval" where
  "opt_member (JObj kvs) k = get_prop kvs k"
| "opt_member v k = JUndefined"

text \<open>The part of \<^verbatim>\<open>apiRequest\<close> after \<^verbatim>\<open>fetch\<close> has resolved. The message of the
  second \<^verbatim>\<open>throw\<close> is a template literal: converting \<open>msg\<close> to a string can itself throw.\<close>

definition handle_response :: "platform \<Rightarrow> response \<Rightarrow> exn + jsval" where
  "handle_response P r =
     (if status r = 204 then Inr (JObj [])
      else if \<not> ok r then
        (let error = (case json r of Inl e \<Rightarrow> JObj [] | Inr v \<Rightarrow> v) in
         case member error ''errors'' of
           Inl e \<Rightarrow> Inl e
         | Inr errors \<Rightarrow>
             (let d = opt_member (opt_index0 errors) ''description'';
                  msg = (if truthy d then d else JStr (statusText r)) in
              if status r = 429 then
                Inl (MessageBirdApiError 429 ''Rate limit exceeded. Try again in a moment.'')
              else
                (case to_string (Number_toString P) msg of
                   Inl e \<Rightarrow> Inl e
                 | Inr text \<Rightarrow>
                     Inl (MessageBirdApiError (status r)
                            (''MessageBird API error ('' @ nat_to_string (status r) @ ''): ''
                               @ text)))))
      else json r)"

definition apiRequest :: "platform \<Rightarrow> api_call \<Rightarrow> exn + jsval" where
  "apiRequest P c =
     (case fetch P (build_request P c) of
        Inl e \<Rightarrow> Inl e
      | Inr r \<Rightarrow> handle_response P r)"

definition toolResult :: "platform \<Rightarrow> jsval \<Rightarrow> jsval" where
  "toolResult P data =
     JObj [(''content'', JArr [JObj [(''type'', JStr ''text''), (''text'', JStr (JSON_stringify_pretty P data))]])]"

definition toolError :: "string \<Rightarrow> jsval" where
  "toolError msg =
     JObj [(''isError'', JBool True), (''content'', JArr [JObj [(''type'', JStr ''text''), (''text'', JStr msg)]])]"

section \<open>Tool handlers\<close>

text \<open>
  Every handler is \<^verbatim>\<open>async (input) => { try { ... } catch (error) { return toolError(...) } }\<close>.
  The body of the \<^verbatim>\<open>try\<close> either returns a result or throws; \<open>try_catch\<close> is the
  \<^verbatim>\<open>catch\<close> clause, which reads \<^verbatim>\<open>error.message\<close> behind a fixed prefix. Everything
  thrown under a handler is an \<^verbatim>\<open>Error\<close> object (the class of client.ts, or an error of
  \<^verbatim>\<open>fetch\<close>, \<^verbatim>\<open>response.json()\<close> or a property read), so that read succeeds.
  Each handler is split into the construction of the arguments of \<^verbatim>\<open>apiRequest\<close>
  (\<open>*_call\<close>) and the handler proper.
\<close>

definition try_catch :: "string \<Rightarrow> exn + jsval \<Rightarrow> jsval" where
  "try_catch prefix r = (case r of Inr v \<Rightarrow> v | Inl e \<Rightarrow> toolError (prefix @ message e))"

text \<open>\<^verbatim>\<open>const data = await apiRequest(...); return toolResult(data);\<close>\<close>

definition request_and_wrap :: "platform \<Rightarrow> api_call \<Rightarrow> exn + jsval" where
  "request_and_wrap P c =
     (case apiRequest P c of Inl e \<Rightarrow> Inl e | Inr data \<Rightarrow> Inr (toolResult P data))"

text \<open>\<^verbatim>\<open>await apiRequest(...); return toolResult(fixed);\<close>\<close>

definition request_and_return :: "platform \<Rightarrow> api_call \<Rightarrow> jsval \<Rightarrow> exn + jsval" where
  "request_and_return P c fixed =
     (case apiRequest P c of Inl e \<Rightarrow> Inl e | Inr data \<Rightarrow> Inr (toolResult P fixed))"

subsection \<open>tools/messaging.ts\<close>

definition send_text_body :: "string \<Rightarrow> string \<Rightarrow> string \<Rightarrow> bool option \<Rightarrow> string option \<Rightarrow> (string \<times> jsval) list" where
  "send_text_body to from text disable_url_preview report_url =
     (let body =
            [(''to'', JStr to), (''from'', JStr from), (''type'', JStr ''text''),
             (''content'',
                JObj ([(''text'', JStr text)]
                      @ (case disable_url_preview of
                           Some b \<Rightarrow> [(''disableUrlPreview'', JBool b)]
                         | None \<Rightarrow> [])))];
          body = (if given report_url then set_prop body ''reportUrl'' (opt_str report_url) else body)
      in body)"

definition send_text_call :: "string \<Rightarrow> string \<Rightarrow> string \<Rightarrow> bool option \<Rightarrow> string option \<Rightarrow> api_call" where
  "send_text_call to from text disable_url_preview report_url =
     \<lparr> endpoint = ''/send'', call_method = POST,
       call_body = Some (JObj (send_text_body to from text disable_url_preview report_url)),
       queryParams = None, target = conversations \<rparr>"

definition send_text :: "platform \<Rightarrow> string \<Rightarrow> string \<Rightarrow> string \<Rightarrow> bool option \<Rightarrow> string option \<Rightarrow> jsval" where
  "send_text P to from text disable_url_preview report_url =
     try_catch ''Failed to send text message: ''
       (request_and_wrap P (send_text_call to from text disable_url_preview report_url))"

definition send_media_content :: "string \<Rightarrow> string \<Rightarrow> string option \<Rightarrow> (string \<times> jsval) list" where
  "send_media_content media_type media_url caption =
     (let mediaContent = [(''url'', JStr media_url)];
          mediaContent =
            (if given caption \<and> media_type \<noteq> ''audio''
             then set_prop mediaContent ''caption'' (opt_str caption) else mediaContent)
      in mediaContent)"

definition send_media_call :: "string \<Rightarrow> string \<Rightarrow> string \<Rightarrow> string \<Rightarrow> string option \<Rightarrow> api_call" where
  "send_media_call to from media_type media_url caption =
     \<lparr> endpoint = ''/send'', call_method = POST,
       call_body = Some (JObj
         [(''to'', JStr to), (''from'', JStr from), (''type'', JStr media_type),
          (''content'', JObj [(media_type, JObj (send_media_content media_type media_url caption))])]),
       queryParams = None, target = conversations \<rparr>"

definition send_media :: "platform \<Rightarrow> string \<Rightarrow> string \<Rightarrow> string \<Rightarrow> string \<Rightarrow> string option \<Rightarrow> jsval" where
  "send_media P to from media_type media_url caption =
     try_catch ''Failed to send media message: ''
       (request_and_wrap P (send_media_call to from media_type media_url caption))"

definition send_location_call :: "string \<Rightarrow> string \<Rightarrow> int \<Rightarrow> int \<Rightarrow> string option \<Rightarrow> string option \<Rightarrow> api_call" where
  "send_location_call to from latitude longitude name address =
     (let location = [(''latitude'', JNum latitude), (''longitude'', JNum longitude)];
          location = (if given name then set_prop location ''name'' (opt_str name) else location);
          location = (if given address then set_prop location ''address'' (opt_str address) else location)
      in \<lparr> endpoint = ''/send'', call_method = POST,
           call_body = Some (JObj
             [(''to'', JStr to), (''from'', JStr from), (''type'', JStr ''location''),
              (''content'', JObj [(''location'', JObj location)])]),
           queryParams = None, target = conversations \<rparr>)"

definition send_location :: "platform \<Rightarrow> string \<Rightarrow> string \<Rightarrow> int \<Rightarrow> int \<Rightarrow> string option \<Rightarrow> string option \<Rightarrow> jsval" where
  "send_location P to from latitude longitude name address =
     try_catch ''Failed to send location: ''
       (request_and_wrap P (send_location_call to from latitude longitude name address))"

text \<open>\<^verbatim>\<open>parameters && parameters.length > 0\<close>\<close>

definition nonempty_list :: "'a list option \<Rightarrow> bool" where
  "nonempty_list xs = (case xs of None \<Rightarrow> False | Some l \<Rightarrow> length l > 0)"

definition list_of :: "'a list option \<Rightarrow> 'a list" where
  "list_of xs = (case xs of None \<Rightarrow> [] | Some l \<Rightarrow> l)"

text \<open>The header block of \<^verbatim>\<open>send_template\<close>: the first URL given wins.\<close>

definition send_template_header :: "string option \<Rightarrow> string option \<Rightarrow> string option \<Rightarrow> jsval list \<Rightarrow> jsval list" where
  "send_template_header header_image_url header_video_url header_document_url components =
     (if given header_image_url then
        components @ [JObj [(''type'', JStr ''header''),
          (''parameters'', JArr [JObj [(''type'', JStr ''image''),
             (''image'', JObj [(''url'', opt_str header_image_url)])]])]]
      else if given header_video_url then
        components @ [JObj [(''type'', JStr ''header''),
          (''parameters'', JArr [JObj [(''type'', JStr ''video''),
             (''video'', JObj [(''url'', opt_str header_video_url)])]])]]
      else if given header_document_url then
        components @ [JObj [(''type'', JStr ''header''),
          (''parameters'', JArr [JObj [(''type'', JStr ''document''),
             (''document'', JObj [(''url'', opt_str header_document_url)])]])]]
      else components)"

definition send_template_hsm ::
  "string \<Rightarrow> string \<Rightarrow> string \<Rightarrow> string list option \<Rightarrow> string option \<Rightarrow> string option
     \<Rightarrow> string option \<Rightarrow> string option \<Rightarrow> (string \<times> jsval) list" where
  "send_template_hsm namespace template_name language_code parameters
       header_image_url header_video_url header_document_url button_url_suffix =
     (let hsm =
            [(''namespace'', JStr namespace), (''templateName'', JStr template_name),
             (''language'', JObj [(''policy'', JStr ''deterministic''), (''code'', JStr language_code)])];
          hsm =
            (if nonempty_list parameters \<and> \<not> given header_image_url \<and> \<not> given header_video_url
                \<and> \<not> given header_document_url \<and> \<not> given button_url_suffix
             then set_prop hsm ''params''
                    (JArr (map (\<lambda>p. JObj [(''default'', JStr p)]) (list_of parameters)))
             else hsm);
          components = [];
          components =
            send_template_header header_image_url header_video_url header_document_url components;
          components =
            (if nonempty_list parameters \<and> length components > 0
             then components @ [JObj [(''type'', JStr ''body''),
                    (''parameters'',
                       JArr (map (\<lambda>p. JObj [(''type'', JStr ''text''), (''text'', JStr p)])
                               (list_of parameters)))]]
             else components);
          components =
            (if given button_url_suffix
             then components @ [JObj [(''type'', JStr ''button''), (''sub_type'', JStr ''url''),
                    (''parameters'',
                       JArr [JObj [(''type'', JStr ''text''), (''text'', opt_str button_url_suffix)]])]]
             else components);
          hsm =
            (if length components > 0
             then (let hsm = set_prop hsm ''components'' (JArr components)
                   in if nonempty_list parameters then delete_prop hsm ''params'' else hsm)
             else hsm)
      in hsm)"

definition send_template_call ::
  "string \<Rightarrow> string \<Rightarrow> string \<Rightarrow> string \<Rightarrow> string \<Rightarrow> string list option \<Rightarrow> string option
     \<Rightarrow> string option \<Rightarrow> string option \<Rightarrow> string option \<Rightarrow> api_call" where
  "send_template_call to from namespace template_name language_code parameters
       header_image_url header_video_url header_document_url button_url_suffix =
     \<lparr> endpoint = ''/send'', call_method = POST,
       call_body = Some (JObj
         [(''to'', JStr to), (''from'', JStr from), (''type'', JStr ''hsm''),
          (''content'', JObj [(''hsm'', JObj
             (send_template_hsm namespace template_name language_code parameters
                header_image_url header_video_url header_document_url button_url_suffix))])]),
       queryParams = None, target = conversations \<rparr>"

definition send_template ::
  "platform \<Rightarrow> string \<Rightarrow> string \<Rightarrow> string \<Rightarrow> string \<Rightarrow> string \<Rightarrow> string list option
     \<Rightarrow> string option \<Rightarrow> string option \<Rightarrow> string option \<Rightarrow> string option \<Rightarrow> jsval" where
  "send_template P to from namespace template_name language_code parameters
       header_image_url header_video_url header_document_url button_url_suffix =
     try_catch ''Failed to send template message: ''
       (request_and_wrap P
          (send_template_call to from namespace template_name language_code parameters
             header_image_url header_video_url header_document_url button_url_suffix))"

text \<open>A reply button as validated: its \<open>id\<close> and \<open>title\<close>.\<close>

definition send_interactive_buttons_interactive ::
  "string \<Rightarrow> (string \<times> string) list \<Rightarrow> string option \<Rightarrow> string option \<Rightarrow> string option
     \<Rightarrow> (string \<times> jsval) list" where
  "send_interactive_buttons_interactive body_text buttons header_text header_image_url footer_text =
     (let interactive =
            [(''type'', JStr ''button''),
             (''body'', JObj [(''text'', JStr body_text)]),
             (''action'', JObj [(''buttons'',
                JArr (map (\<lambda>b. JObj [(''id'', JStr (fst b)), (''type'', JStr ''reply''),
                                        (''title'', JStr (snd b))]) buttons))])];
          interactive =
            (if given header_text then
               set_prop interactive ''header''
                 (JObj [(''type'', JStr ''text''), (''text'', opt_str header_text)])
             else if given header_image_url then
               set_prop interactive ''header''
                 (JObj [(''type'', JStr ''image''),
                        (''image'', JObj [(''url'', opt_str header_image_url)])])
             else interactive);
          interactive =
            (if given footer_text
             then set_prop interactive ''footer'' (JObj [(''text'', opt_str footer_text)])
             else interactive)
      in interactive)"

definition send_interactive_buttons_call ::
  "string \<Rightarrow> string \<Rightarrow> string \<Rightarrow> (string \<times> string) list \<Rightarrow> string option \<Rightarrow> string option
     \<Rightarrow> string option \<Rightarrow> api_call" where
  "send_interactive_buttons_call to from body_text buttons header_text header_image_url footer_text =
     \<lparr> endpoint = ''/send'', call_method = POST,
       call_body = Some (JObj
         [(''to'', JStr to), (''from'', JStr from), (''type'', JStr ''interactive''),
          (''content'', JObj [(''interactive'', JObj
             (send_interactive_buttons_interactive body_text buttons header_text
                header_image_url footer_text))])]),
       queryParams = None, target = conversations \<rparr>"

definition send_interactive_buttons ::
  "platform \<Rightarrow> string \<Rightarrow> string \<Rightarrow> string \<Rightarrow> (string \<times> string) list \<Rightarrow> string option
     \<Rightarrow> string option \<Rightarrow> string option \<Rightarrow> jsval" where
  "send_interactive_buttons P to from body_text buttons header_text header_image_url footer_text =
     try_catch ''Failed to send interactive buttons: ''
       (request_and_wrap P
          (send_interactive_buttons_call to from body_text buttons header_text
             header_image_url footer_text))"

text \<open>\<open>sections\<close> is passed through as validated.\<close>

definition send_interactive_list_call ::
  "string \<Rightarrow> string \<Rightarrow> string \<Rightarrow> string \<Rightarrow> jsval \<Rightarrow> string option \<Rightarrow> string option \<Rightarrow> api_call" where
  "send_interactive_list_call to from body_text button_label sections header_text footer_text =
     (let interactive =
            [(''type'', JStr ''list''),
             (''body'', JObj [(''text'', JStr body_text)]),
             (''action'', JObj [(''button'', JStr button_label), (''sections'', sections)])];
          interactive =
            (if given header_text
             then set_prop interactive ''header''
                    (JObj [(''type'', JStr ''text''), (''text'', opt_str header_text)])
             else interactive);
          interactive =
            (if given footer_text
             then set_prop interactive ''footer'' (JObj [(''text'', opt_str footer_text)])
             else interactive)
      in \<lparr> endpoint = ''/send'', call_method = POST,
           call_body = Some (JObj
             [(''to'', JStr to), (''from'', JStr from), (''type'', JStr ''interactive''),
              (''content'', JObj [(''interactive'', JObj interactive)])]),
           queryParams = None, target = conversations \<rparr>)"

definition send_interactive_list ::
  "platform \<Rightarrow> string \<Rightarrow> string \<Rightarrow> string \<Rightarrow> string \<Rightarrow> jsval \<Rightarrow> string option \<Rightarrow> string option \<Rightarrow> jsval" where
  "send_interactive_list P to from body_text button_label sections header_text footer_text =
     try_catch ''Failed to send interactive list: ''
       (request_and_wrap P
          (send_interactive_list_call to from body_text button_label sections header_text footer_text))"

subsection \<open>tools/conversations.ts\<close>

definition list_conversations_call :: "string option \<Rightarrow> string option \<Rightarrow> api_call" where
  "list_conversations_call offset limit =
     \<lparr> endpoint = ''/conversations'', call_method = GET, call_body = None,
       queryParams = Some [(''offset'', offset), (''limit'', limit)], target = conversations \<rparr>"

definition list_conversations :: "platform \<Rightarrow> string option \<Rightarrow> string option \<Rightarrow> jsval" where
  "list_conversations P offset limit =
     try_catch ''Failed to list conversations: ''
       (request_and_wrap P (list_conversations_call offset limit))"

definition get_conversation_call :: "string \<Rightarrow> api_call" where
  "get_conversation_call conversation_id =
     \<lparr> endpoint = ''/conversations/'' @ conversation_id, call_method = GET, call_body = None,
       queryParams = None, target = conversations \<rparr>"

definition get_conversation :: "platform \<Rightarrow> string \<Rightarrow> jsval" where
  "get_conversation P conversation_id =
     try_catch ''Failed to get conversation: ''
       (request_and_wrap P (get_conversation_call conversation_id))"

definition update_conversation_call :: "string \<Rightarrow> string \<Rightarrow> api_call" where
  "update_conversation_call conversation_id new_status =
     \<lparr> endpoint = ''/conversations/'' @ conversation_id, call_method = PATCH,
       call_body = Some (JObj [(''status'', JStr new_status)]),
       queryParams = None, target = conversations \<rparr>"

definition update_conversation :: "platform \<Rightarrow> string \<Rightarrow> string \<Rightarrow> jsval" where
  "update_conversation P conversation_id new_status =
     try_catch ''Failed to update conversation: ''
       (request_and_wrap P (update_conversation_call conversation_id new_status))"

definition list_conversation_messages_call :: "string \<Rightarrow> string option \<Rightarrow> string option \<Rightarrow> api_call" where
  "list_conversation_messages_call conversation_id offset limit =
     \<lparr> endpoint = ''/conversations/'' @ conversation_id @ ''/messages'', call_method = GET,
       call_body = None,
       queryParams = Some [(''offset'', offset), (''limit'', limit)], target = conversations \<rparr>"

definition list_conversation_messages :: "platform \<Rightarrow> string \<Rightarrow> string option \<Rightarrow> string option \<Rightarrow> jsval" where
  "list_conversation_messages P conversation_id offset limit =
     try_catch ''Failed to list messages: ''
       (request_and_wrap P (list_conversation_messages_call conversation_id offset limit))"

definition get_message_call :: "string \<Rightarrow> string \<Rightarrow> api_call" where
  "get_message_call conversation_id message_id =
     \<lparr> endpoint = ''/conversations/'' @ conversation_id @ ''/messages/'' @ message_id,
       call_method = GET, call_body = None, queryParams = None, target = conversations \<rparr>"

definition get_message :: "platform \<Rightarrow> string \<Rightarrow> string \<Rightarrow> jsval" where
  "get_message P conversation_id message_id =
     try_catch ''Failed to get message: ''
       (request_and_wrap P (get_message_call conversation_id message_id))"

text \<open>An optional number input.\<close>

fun opt_num :: "int option \<Rightarrow> jsval" where
  "opt_num None = JUndefined"
| "opt_num (Some n) = JNum n"

text \<open>The \<^verbatim>\<open>switch (type)\<close> of \<^verbatim>\<open>reply_to_conversation\<close>; \<open>None\<close> is its
  \<^verbatim>\<open>default\<close> branch.\<close>

definition reply_to_conversation_content ::
  "string \<Rightarrow> string option \<Rightarrow> string option \<Rightarrow> string option \<Rightarrow> int option \<Rightarrow> int option
     \<Rightarrow> (string \<times> jsval) list option" where
  "reply_to_conversation_content type text media_url caption latitude longitude =
     (if type = ''text'' then
        Some [(''text'', (if given text then opt_str text else JStr []))]
      else if type = ''image'' \<or> type = ''video'' \<or> type = ''audio'' \<or> type = ''file'' then
        (let media = [(''url'', opt_str media_url)];
             media =
               (if given caption \<and> type \<noteq> ''audio''
                then set_prop media ''caption'' (opt_str caption) else media)
         in Some [(type, JObj media)])
      else if type = ''location'' then
        Some [(''location'', JObj [(''latitude'', opt_num latitude), (''longitude'', opt_num longitude)])]
      else None)"

text \<open>\<open>Inl\<close> is a result returned before any request is made.\<close>

definition reply_to_conversation_call ::
  "string \<Rightarrow> string \<Rightarrow> string option \<Rightarrow> string option \<Rightarrow> string option \<Rightarrow> int option
     \<Rightarrow> int option \<Rightarrow> string option \<Rightarrow> jsval + api_call" where
  "reply_to_conversation_call conversation_id type text media_url caption latitude longitude channel_id =
     (case reply_to_conversation_content type text media_url caption latitude longitude of
        None \<Rightarrow> Inl (toolError (''Unsupported message type: '' @ type))
      | Some content \<Rightarrow>
          (let body = [(''type'', JStr type), (''content'', JObj content)];
               body = (if given channel_id then set_prop body ''channelId'' (opt_str channel_id) else body)
           in Inr \<lparr> endpoint = ''/conversations/'' @ conversation_id @ ''/messages'',
                    call_method = POST, call_body = Some (JObj body),
                    queryParams = None, target = conversations \<rparr>))"

definition reply_to_conversation ::
  "platform \<Rightarrow> string \<Rightarrow> string \<Rightarrow> string option \<Rightarrow> string option \<Rightarrow> string option \<Rightarrow> int option
     \<Rightarrow> int option \<Rightarrow> string option \<Rightarrow> jsval" where
  "reply_to_conversation P conversation_id type text media_url caption latitude longitude channel_id =
     try_catch ''Failed to reply to conversation: ''
       (case reply_to_conversation_call conversation_id type text media_url caption
               latitude longitude channel_id of
          Inl early \<Rightarrow> Inr early
        | Inr c \<Rightarrow> request_and_wrap P c)"

definition list_messages_call :: "string option \<Rightarrow> string option \<Rightarrow> api_call" where
  "list_messages_call offset limit =
     \<lparr> endpoint = ''/messages'', call_method = GET, call_body = None,
       queryParams = Some [(''offset'', offset), (''limit'', limit)], target = conversations \<rparr>"

definition list_messages :: "platform \<Rightarrow> string option \<Rightarrow> string option \<Rightarrow> jsval" where
  "list_messages P offset limit =
     try_catch ''Failed to list messages: '' (request_and_wrap P (list_messages_call offset limit))"

subsection \<open>tools/contacts.ts\<close>

definition list_contacts_call :: "string option \<Rightarrow> string option \<Rightarrow> api_call" where
  "list_contacts_call offset limit =
     \<lparr> endpoint = ''/contacts'', call_method = GET, call_body = None,
       queryParams = Some [(''offset'', offset), (''limit'', limit)], target = rest \<rparr>"

definition list_contacts :: "platform \<Rightarrow> string option \<Rightarrow> string option \<Rightarrow> jsval" where
  "list_contacts P offset limit =
     try_catch ''Failed to list contacts: '' (request_and_wrap P (list_contacts_call offset limit))"

definition get_contact_call :: "string option \<Rightarrow> string option \<Rightarrow> string option \<Rightarrow> api_call" where
  "get_contact_call contact_id msisdn name =
     (if given contact_id then
        \<lparr> endpoint = ''/contacts/'' @ str_of contact_id, call_method = GET,
          call_body = None, queryParams = None, target = rest \<rparr>
      else
        (let params = [];
             params = (if given msisdn then set_prop params ''msisdn'' msisdn else params);
             params = (if given name then set_prop params ''name'' name else params)
         in \<lparr> endpoint = ''/contacts'', call_method = GET, call_body = None,
              queryParams = Some params, target = rest \<rparr>))"

definition get_contact :: "platform \<Rightarrow> string option \<Rightarrow> string option \<Rightarrow> string option \<Rightarrow> jsval" where
  "get_contact P contact_id msisdn name =
     try_catch ''Failed to get contact: '' (request_and_wrap P (get_contact_call contact_id msisdn name))"

text \<open>\<^verbatim>\<open>if (x) body.k = x\<close> for an optional string input.\<close>

definition set_if_given :: "(string \<times> jsval) list \<Rightarrow> string \<Rightarrow> string option \<Rightarrow> (string \<times> jsval) list" where
  "set_if_given obj k x = (if given x then set_prop obj k (opt_str x) else obj)"

definition create_contact_body ::
  "string \<Rightarrow> string option \<Rightarrow> string option \<Rightarrow> string option \<Rightarrow> string option \<Rightarrow> string option
     \<Rightarrow> string option \<Rightarrow> (string \<times> jsval) list" where
  "create_contact_body msisdn first_name last_name custom1 custom2 custom3 custom4 =
     (let body = [(''msisdn'', JStr msisdn)];
          body = set_if_given body ''firstName'' first_name;
          body = set_if_given body ''lastName'' last_name;
          body = set_if_given body ''custom1'' custom1;
          body = set_if_given body ''custom2'' custom2;
          body = set_if_given body ''custom3'' custom3;
          body = set_if_given body ''custom4'' custom4
      in body)"

definition create_contact_call ::
  "string \<Rightarrow> string option \<Rightarrow> string option \<Rightarrow> string option \<Rightarrow> string option \<Rightarrow> string option
     \<Rightarrow> string option \<Rightarrow> api_call" where
  "create_contact_call msisdn first_name last_name custom1 custom2 custom3 custom4 =
     \<lparr> endpoint = ''/contacts'', call_method = POST,
       call_body = Some (JObj
         (create_contact_body msisdn first_name last_name custom1 custom2 custom3 custom4)),
       queryParams = None, target = rest \<rparr>"

definition create_contact ::
  "platform \<Rightarrow> string \<Rightarrow> string option \<Rightarrow> string option \<Rightarrow> string option \<Rightarrow> string option
     \<Rightarrow> string option \<Rightarrow> string option \<Rightarrow> jsval" where
  "create_contact P msisdn first_name last_name custom1 custom2 custom3 custom4 =
     try_catch ''Failed to create contact: ''
       (request_and_wrap P
          (create_contact_call msisdn first_name last_name custom1 custom2 custom3 custom4))"

definition update_contact_body ::
  "string option \<Rightarrow> string option \<Rightarrow> string option \<Rightarrow> string option \<Rightarrow> string option
     \<Rightarrow> string option \<Rightarrow> string option \<Rightarrow> (string \<times> jsval) list" where
  "update_contact_body msisdn first_name last_name custom1 custom2 custom3 custom4 =
     (let body = [];
          body = set_if_given body ''msisdn'' msisdn;
          body = set_if_given body ''firstName'' first_name;
          body = set_if_given body ''lastName'' last_name;
          body = set_if_given body ''custom1'' custom1;
          body = set_if_given body ''custom2'' custom2;
          body = set_if_given body ''custom3'' custom3;
          body = set_if_given body ''custom4'' custom4
      in body)"

definition update_contact_call ::
  "string \<Rightarrow> string option \<Rightarrow> string option \<Rightarrow> string option \<Rightarrow> string option \<Rightarrow> string option
     \<Rightarrow> string option \<Rightarrow> string option \<Rightarrow> api_call" where
  "update_contact_call contact_id msisdn first_name last_name custom1 custom2 custom3 custom4 =
     \<lparr> endpoint = ''/contacts/'' @ contact_id, call_method = PATCH,
       call_body = Some (JObj
         (update_contact_body msisdn first_name last_name custom1 custom2 custom3 custom4)),
       queryParams = None, target = rest \<rparr>"

definition update_contact ::
  "platform \<Rightarrow> string \<Rightarrow> string option \<Rightarrow> string option \<Rightarrow> string option \<Rightarrow> string option
     \<Rightarrow> string option \<Rightarrow> string option \<Rightarrow> string option \<Rightarrow> jsval" where
  "update_contact P contact_id msisdn first_name last_name custom1 custom2 custom3 custom4 =
     try_catch ''Failed to update contact: ''
       (request_and_wrap P
          (update_contact_call contact_id msisdn first_name last_name custom1 custom2 custom3 custom4))"

definition delete_contact_call :: "string \<Rightarrow> api_call" where
  "delete_contact_call contact_id =
     \<lparr> endpoint = ''/contacts/'' @ contact_id, call_method = DELETE, call_body = None,
       queryParams = None, target = rest \<rparr>"

definition delete_contact :: "platform \<Rightarrow> string \<Rightarrow> jsval" where
  "delete_contact P contact_id =
     try_catch ''Failed to delete contact: ''
       (request_and_return P (delete_contact_call contact_id)
          (JObj [(''deleted'', JBool True), (''id'', JStr contact_id)]))"

subsection \<open>tools/templates.js\<close>

definition list_templates_call ::
  "string option \<Rightarrow> string option \<Rightarrow> string option \<Rightarrow> string option \<Rightarrow> api_call" where
  "list_templates_call offset limit waba_id channel_id =
     \<lparr> endpoint = ''/v3/platforms/whatsapp/templates'', call_method = GET, call_body = None,
       queryParams = Some [(''offset'', offset), (''limit'', limit), (''wabaId'', waba_id),
                           (''channelId'', channel_id)],
       target = integrations \<rparr>"

definition list_templates ::
  "platform \<Rightarrow> string option \<Rightarrow> string option \<Rightarrow> string option \<Rightarrow> string option \<Rightarrow> jsval" where
  "list_templates P offset limit waba_id channel_id =
     try_catch ''Failed to list templates: ''
       (request_and_wrap P (list_templates_call offset limit waba_id channel_id))"

definition get_template_call :: "string \<Rightarrow> string \<Rightarrow> api_call" where
  "get_template_call name language =
     \<lparr> endpoint = ''/v3/platforms/whatsapp/templates/'' @ name @ ''/'' @ language,
       call_method = GET, call_body = None, queryParams = None, target = integrations \<rparr>"

definition get_template :: "platform \<Rightarrow> string \<Rightarrow> string \<Rightarrow> jsval" where
  "get_template P name language =
     try_catch ''Failed to get template: '' (request_and_wrap P (get_template_call name language))"

text \<open>\<^verbatim>\<open>s.includes(pat)\<close>\<close>

fun str_includes :: "string \<Rightarrow> string \<Rightarrow> bool" where
  "str_includes [] pat = (pat = [])"
| "str_includes (c # cs) pat = (take (length pat) (c # cs) = pat \<or> str_includes cs pat)"

definition is_digit :: "char \<Rightarrow> bool" where
  "is_digit c = (c \<in> set ''0123456789'')"

text \<open>A match of \<^verbatim>\<open>/\{\{\d+\}\}/\<close> at the head of the string: what follows the match.\<close>

definition match_placeholder :: "string \<Rightarrow> string option" where
  "match_placeholder s =
     (case s of
        a # b # r \<Rightarrow>
          if a = CHR ''{'' \<and> b = CHR ''{'' \<and> takeWhile is_digit r \<noteq> []
               \<and> take 2 (dropWhile is_digit r) = ''}}''
          then Some (drop 2 (dropWhile is_digit r))
          else None
      | _ \<Rightarrow> None)"

text \<open>\<^verbatim>\<open>s.replace(/\{\{\d+\}\}/g, "example_value")\<close>: matches are taken left to right and
  do not overlap.\<close>

function replace_placeholders :: "string \<Rightarrow> string" where
  "replace_placeholders [] = []"
| "replace_placeholders (c # cs) =
     (case match_placeholder (c # cs) of
        Some after \<Rightarrow> ''example_value'' @ replace_placeholders after
      | None \<Rightarrow> c # replace_placeholders cs)"
  by pat_completeness auto
termination
proof (relation "measure length")
  show "wf (measure (length :: string \<Rightarrow> nat))"
    by simp
next
  fix c :: char and cs after :: string
  assume "match_placeholder (c # cs) = Some after"
  then obtain b r where "cs = b # r" and "after = drop 2 (dropWhile is_digit r)"
    by (auto simp: match_placeholder_def split: list.splits if_splits)
  moreover have "length (dropWhile is_digit r) \<le> length r"
    by (rule length_dropWhile_le)
  ultimately show "(after, c # cs) \<in> measure length"
    by simp
next
  fix c :: char and cs :: string
  show "(cs, c # cs) \<in> measure length"
    by simp
qed

definition create_template_components ::
  "string \<Rightarrow> string option \<Rightarrow> string option \<Rightarrow> string option \<Rightarrow> string option \<Rightarrow> string option
     \<Rightarrow> string option \<Rightarrow> string option \<Rightarrow> string list option \<Rightarrow> jsval list" where
  "create_template_components body_text header_type header_text header_example_url footer_text
       button_type button_text button_value body_examples =
     (let components = [];
          components =
            (if given header_type then
               (let header = [(''type'', JStr ''HEADER''), (''format'', opt_str header_type)];
                    header =
                      (if header_type = Some ''TEXT'' \<and> given header_text then
                         set_prop header ''text'' (opt_str header_text)
                       else if given header_example_url then
                         set_prop header ''example''
                           (JObj [(''header_url'', JArr [opt_str header_example_url])])
                       else header)
                in components @ [JObj header])
             else components);
          body = [(''type'', JStr ''BODY''), (''text'', JStr body_text)];
          body =
            (if nonempty_list body_examples
             then set_prop body ''example''
                    (JObj [(''body_text'', JArr [JArr (map JStr (list_of body_examples))])])
             else body);
          components = components @ [JObj body];
          components =
            (if given footer_text
             then components @ [JObj [(''type'', JStr ''FOOTER''), (''text'', opt_str footer_text)]]
             else components);
          components =
            (if given button_type \<and> given button_text then
               (let button = [(''type'', opt_str button_type), (''text'', opt_str button_text)];
                    button =
                      (if button_type = Some ''PHONE_NUMBER'' \<and> given button_value then
                         set_prop button ''phone_number'' (opt_str button_value)
                       else if button_type = Some ''URL'' \<and> given button_value then
                         (let button = set_prop button ''url'' (opt_str button_value)
                          in if str_includes (str_of button_value) ''{{''
                             then set_prop button ''example''
                                    (JArr [JStr (replace_placeholders (str_of button_value))])
                             else button)
                       else button)
                in components @ [JObj [(''type'', JStr ''BUTTONS''), (''buttons'', JArr [JObj button])]])
             else components)
      in components)"

definition create_template_call ::
  "string \<Rightarrow> string \<Rightarrow> string \<Rightarrow> string \<Rightarrow> string option \<Rightarrow> string option \<Rightarrow> string option
     \<Rightarrow> string option \<Rightarrow> string option \<Rightarrow> string option \<Rightarrow> string option \<Rightarrow> string list option
     \<Rightarrow> string option \<Rightarrow> bool option \<Rightarrow> api_call" where
  "create_template_call name language category body_text header_type header_text header_example_url
       footer_text button_type button_text button_value body_examples waba_id allow_category_change =
     (let components =
            create_template_components body_text header_type header_text header_example_url
              footer_text button_type button_text button_value body_examples;
          requestBody =
            [(''name'', JStr name), (''language'', JStr language), (''category'', JStr category),
             (''components'', JArr components)];
          requestBody =
            (if given waba_id then set_prop requestBody ''wabaId'' (opt_str waba_id) else requestBody);
          requestBody =
            (case allow_category_change of
               Some b \<Rightarrow> set_prop requestBody ''allowCategoryChange'' (JBool b)
             | None \<Rightarrow> requestBody)
      in \<lparr> endpoint = ''/v2/platforms/whatsapp/templates'', call_method = POST,
           call_body = Some (JObj requestBody), queryParams = None, target = integrations \<rparr>)"

definition create_template ::
  "platform \<Rightarrow> string \<Rightarrow> string \<Rightarrow> string \<Rightarrow> string \<Rightarrow> string option \<Rightarrow> string option
     \<Rightarrow> string option \<Rightarrow> string option \<Rightarrow> string option \<Rightarrow> string option \<Rightarrow> string option
     \<Rightarrow> string list option \<Rightarrow> string option \<Rightarrow> bool option \<Rightarrow> jsval" where
  "create_template P name language category body_text header_type header_text header_example_url
       footer_text button_type button_text button_value body_examples waba_id allow_category_change =
     try_catch ''Failed to create template: ''
       (request_and_wrap P
          (create_template_call name language category body_text header_type header_text
             header_example_url footer_text button_type button_text button_value body_examples
             waba_id allow_category_change))"

text \<open>\<open>Inl\<close> is the result returned when \<^verbatim>\<open>JSON.parse(components)\<close> throws.\<close>

definition update_template_call ::
  "platform \<Rightarrow> string \<Rightarrow> string \<Rightarrow> string \<Rightarrow> string \<Rightarrow> string option \<Rightarrow> jsval + api_call" where
  "update_template_call P name language waba_id components category =
     (case JSON_parse P components of
        Inl e \<Rightarrow> Inl (toolError ''Invalid JSON in components parameter'')
      | Inr parsedComponents \<Rightarrow>
          (let body = [(''wabaId'', JStr waba_id), (''components'', parsedComponents)];
               body = (if given category then set_prop body ''category'' (opt_str category) else body)
           in Inr \<lparr> endpoint = ''/v2/platforms/whatsapp/templates/'' @ name @ ''/'' @ language,
                    call_method = PUT, call_body = Some (JObj body),
                    queryParams = None, target = integrations \<rparr>))"

definition update_template ::
  "platform \<Rightarrow> string \<Rightarrow> string \<Rightarrow> string \<Rightarrow> string \<Rightarrow> string option \<Rightarrow> jsval" where
  "update_template P name language waba_id components category =
     try_catch ''Failed to update template: ''
       (case update_template_call P name language waba_id components category of
          Inl early \<Rightarrow> Inr early
        | Inr c \<Rightarrow> request_and_wrap P c)"

definition delete_template_call :: "string \<Rightarrow> api_call" where
  "delete_template_call name =
     \<lparr> endpoint = ''/v3/platforms/whatsapp/templates/'' @ name, call_method = DELETE,
       call_body = None, queryParams = None, target = integrations \<rparr>"

definition delete_template :: "platform \<Rightarrow> string \<Rightarrow> jsval" where
  "delete_template P name =
     try_catch ''Failed to delete template: ''
       (request_and_return P (delete_template_call name)
          (JObj [(''deleted'', JBool True), (''name'', JStr name)]))"

definition delete_template_variant_call :: "string \<Rightarrow> string \<Rightarrow> api_call" where
  "delete_template_variant_call name language =
     \<lparr> endpoint = ''/v3/platforms/whatsapp/templates/'' @ name @ ''/'' @ language,
       call_method = DELETE, call_body = None, queryParams = None, target = integrations \<rparr>"

definition delete_template_variant :: "platform \<Rightarrow> string \<Rightarrow> string \<Rightarrow> jsval" where
  "delete_template_variant P name language =
     try_catch ''Failed to delete template variant: ''
       (request_and_return P (delete_template_variant_call name language)
          (JObj [(''deleted'', JBool True), (''name'', JStr name), (''language'', JStr language)]))"

subsection \<open>The registered tools\<close>

text \<open>
  An invocation of one of the tools registered on the server by
  \<^verbatim>\<open>registerMessagingTools\<close>, \<^verbatim>\<open>registerConversationTools\<close>, \<^verbatim>\<open>registerTemplateTools\<close> and
  \<^verbatim>\<open>registerContactTools\<close>, with its validated input in the order the handler destructures it.
\<close>

datatype tool_call =
    Send_text string string string "bool option" "string option"
  | Send_media string string string string "string option"
  | Send_location string string int int "string option" "string option"
  | Send_template string string string string string "string list option" "string option"
      "string option" "string option" "string option"
  | Send_interactive_buttons string string string "(string \<times> string) list" "string option"
      "string option" "string option"
  | Send_interactive_list string string string string jsval "string option" "string option"
  | List_conversations "string option" "string option"
  | Get_conversation string
  | Update_conversation string string
  | List_conversation_messages string "string option" "string option"
  | Get_message string string
  | Reply_to_conversation string string "string option" "string option" "string option"
      "int option" "int option" "string option"
  | List_messages "string option" "string option"
  | List_templates "string option" "string option" "string option" "string option"
  | Get_template string string
  | Create_template string string string string "string option" "string option" "string option"
      "string option" "string option" "string option" "string option" "string list option"
      "string option" "bool option"
  | Update_template string string string string "string option"
  | Delete_template string
  | Delete_template_variant string string
  | List_contacts "string option" "string option"
  | Get_contact "string option" "string option" "string option"
  | Create_contact string "string option" "string option" "string option" "string option"
      "string option" "string option"
  | Update_contact string "string option" "string option" "string option" "string option"
      "string option" "string option" "string option"
  | Delete_contact string

fun call_tool :: "platform \<Rightarrow> tool_call \<Rightarrow> jsval" where
  "call_tool P (Send_text to from text disable_url_preview report_url) =
     send_text P to from text disable_url_preview report_url"
| "call_tool P (Send_media to from media_type media_url caption) =
     send_media P to from media_type media_url caption"
| "call_tool P (Send_location to from latitude longitude name address) =
     send_location P to from latitude longitude name address"
| "call_tool P (Send_template to from namespace template_name language_code parameters
       header_image_url header_video_url header_document_url button_url_suffix) =
     send_template P to from namespace template_name language_code parameters
       header_image_url header_video_url header_document_url button_url_suffix"
| "call_tool P (Send_interactive_buttons to from body_text buttons header_text header_image_url
       footer_text) =
     send_interactive_buttons P to from body_text buttons header_text header_image_url footer_text"
| "call_tool P (Send_interactive_list to from body_text button_label sections header_text
       footer_text) =
     send_interactive_list P to from body_text button_label sections header_text footer_text"
| "call_tool P (List_conversations offset limit) = list_conversations P offset limit"
| "call_tool P (Get_conversation conversation_id) = get_conversation P conversation_id"
| "call_tool P (Update_conversation conversation_id new_status) =
     update_conversation P conversation_id new_status"
| "call_tool P (List_conversation_messages conversation_id offset limit) =
     list_conversation_messages P conversation_id offset limit"
| "call_tool P (Get_message conversation_id message_id) = get_message P conversation_id message_id"
| "call_tool P (Reply_to_conversation conversation_id type text media_url caption latitude
       longitude channel_id) =
     reply_to_conversation P conversation_id type text media_url caption latitude longitude
       channel_id"
| "call_tool P (List_messages offset limit) = list_messages P offset limit"
| "call_tool P (List_templates offset limit waba_id channel_id) =
     list_templates P offset limit waba_id channel_id"
| "call_tool P (Get_template name language) = get_template P name language"
| "call_tool P (Create_template name language category body_text header_type header_text
       header_example_url footer_text button_type button_text button_value body_examples waba_id
       allow_category_change) =
     create_template P name language category body_text header_type header_text
       header_example_url footer_text button_type button_text button_value body_examples waba_id
       allow_category_change"
| "call_tool P (Update_template name language waba_id components category) =
     update_template P name language waba_id components category"
| "call_tool P (Delete_template name) = delete_template P name"
| "call_tool P (Delete_template_variant name language) = delete_template_variant P name language"
| "call_tool P (List_contacts offset limit) = list_contacts P offset limit"
| "call_tool P (Get_contact contact_id msisdn name) = get_contact P contact_id msisdn name"
| "call_tool P (Create_contact msisdn first_name last_name custom1 custom2 custom3 custom4) =
     create_contact P msisdn first_name last_name custom1 custom2 custom3 custom4"
| "call_tool P (Update_contact contact_id msisdn first_name last_name custom1 custom2 custom3
       custom4) =
     update_contact P contact_id msisdn first_name last_name custom1 custom2 custom3 custom4"
| "call_tool P (Delete_contact contact_id) = delete_contact P contact_id"

text \<open>The fixed text in front of \<^verbatim>\<open>error.message\<close> in the handler's \<^verbatim>\<open>catch\<close> clause.\<close>

fun failure_prefix :: "tool_call \<Rightarrow> string" where
  "failure_prefix (Send_text _ _ _ _ _) = ''Failed to send text message: ''"
| "failure_prefix (Send_media _ _ _ _ _) = ''Failed to send media message: ''"
| "failure_prefix (Send_location _ _ _ _ _ _) = ''Failed to send location: ''"
| "failure_prefix (Send_template _ _ _ _ _ _ _ _ _ _) = ''Failed to send template message: ''"
| "failure_prefix (Send_interactive_buttons _ _ _ _ _ _ _) = ''Failed to send interactive buttons: ''"
| "failure_prefix (Send_interactive_list _ _ _ _ _ _ _) = ''Failed to send interactive list: ''"
| "failure_prefix (List_conversations _ _) = ''Failed to list conversations: ''"
| "failure_prefix (Get_conversation _) = ''Failed to get conversation: ''"
| "failure_prefix (Update_conversation _ _) = ''Failed to update conversation: ''"
| "failure_prefix (List_conversation_messages _ _ _) = ''Failed to list messages: ''"
| "failure_prefix (Get_message _ _) = ''Failed to get message: ''"
| "failure_prefix (Reply_to_conversation _ _ _ _ _ _ _ _) = ''Failed to reply to conversation: ''"
| "failure_prefix (List_messages _ _) = ''Failed to list messages: ''"
| "failure_prefix (List_templates _ _ _ _) = ''Failed to list templates: ''"
| "failure_prefix (Get_template _ _) = ''Failed to get template: ''"
| "failure_prefix (Create_template _ _ _ _ _ _ _ _ _ _ _ _ _ _) = ''Failed to create template: ''"
| "failure_prefix (Update_template _ _ _ _ _) = ''Failed to update template: ''"
| "failure_prefix (Delete_template _) = ''Failed to delete template: ''"
| "failure_prefix (Delete_template_variant _ _) = ''Failed to delete template variant: ''"
| "failure_prefix (List_contacts _ _) = ''Failed to list contacts: ''"
| "failure_prefix (Get_contact _ _ _) = ''Failed to get contact: ''"
| "failure_prefix (Create_contact _ _ _ _ _ _ _) = ''Failed to create contact: ''"
| "failure_prefix (Update_contact _ _ _ _ _ _ _ _) = ''Failed to update contact: ''"
| "failure_prefix (Delete_contact _) = ''Failed to delete contact: ''"

text \<open>The values of the \<^verbatim>\<open>type\<close> enum in the input schema of \<^verbatim>\<open>reply_to_conversation\<close>.\<close>

definition reply_types :: "string list" where
  "reply_types = [''text'', ''image'', ''video'', ''audio'', ''file'', ''location'']"

subsection \<open>An environment for evaluated examples\<close>

text \<open>
  A platform whose network answers every request with the response \<open>r\<close>, used to evaluate
  the handlers on concrete inputs. Its \<open>JSON_parse\<close> reads the texts \<^verbatim>\<open>[]\<close> and \<^verbatim>\<open>{}\<close>
  and throws on any other; the only other text the examples present to it is the empty one,
  on which \<^verbatim>\<open>JSON.parse\<close> throws. The two serialisers are stand-ins: no example depends
  on the text they produce. Numbers print in plain decimal.
\<close>

definition answering :: "response \<Rightarrow> platform" where
  "answering r =
     \<lparr> fetch = (\<lambda>rq. Inr r),
       JSON_stringify = (\<lambda>v. ''{}''),
       JSON_stringify_pretty = (\<lambda>v. ''{}''),
       JSON_parse = (\<lambda>s. if s = ''[]'' then Inr (JArr [])
                          else if s = ''{}'' then Inr (JObj [])
                          else Inl (JsError ''SyntaxError'' ''Unexpected end of JSON input'')),
       Number_toString = int_to_string,
       API_KEY = ''test-key'' \<rparr>"

subsection \<open>Specification-side definitions\<close>

text \<open>
  The filtering of query parameters in the words of the specification: an entry whose value
  is undefined or the empty string is dropped, every other entry is kept, in order.
\<close>

fun surviving_entries :: "(string \<times> string option) list \<Rightarrow> (string \<times> string) list" where
  "surviving_entries [] = []"
| "surviving_entries ((k, None) # es) = surviving_entries es"
| "surviving_entries ((k, Some v) # es) =
     (if v = [] then surviving_entries es else (k, v) # surviving_entries es)"

text \<open>The characters an encoded key or value is made of.\<close>

definition urlencoded_alphabet :: "char set" where
  "urlencoded_alphabet =
     set ''ABCDEFGHIJKLMNOPQRSTUVWXYZabcdefghijklmnopqrstuvwxyz0123456789*-._+%''"

text \<open>A 404 response whose body carries a provider error.\<close>

definition not_found_response :: response where
  "not_found_response =
     \<lparr> status = 404, statusText = ''Not Found'',
       json = Inr (JObj [(''errors'', JArr [JObj [(''code'', JNum 20),
                (''description'', JStr ''conversation not found'')]])]) \<rparr>"

text \<open>A 429 response whose body carries a provider error.\<close>

definition too_many_response :: response where
  "too_many_response =
     \<lparr> status = 429, statusText = ''Too Many Requests'',
       json = Inr (JObj [(''errors'', JArr [JObj [(''description'', JStr ''slow down'')]])]) \<rparr>"

text \<open>A 400 response whose first error has an object for its description, with a member
  named \<^verbatim>\<open>toString\<close>.\<close>

definition shadowed_toString_response :: response where
  "shadowed_toString_response =
     \<lparr> status = 400, statusText = ''Bad Request'',
       json = Inr (JObj [(''errors'',
                JArr [JObj [(''description'', JObj [(''toString'', JNum 1)])]])]) \<rparr>"


text \<open>A response to a successful POST.\<close>

definition created_response :: response where
  "created_response =
     \<lparr> status = 201, statusText = ''Created'', json = Inr (JObj [(''id'', JStr ''m1'')]) \<rparr>"

text \<open>
  A value "contains a \<^verbatim>\<open>{{n}}\<close> placeholder" when the pattern matches at some position.
\<close>

fun has_placeholder :: "string \<Rightarrow> bool" where
  "has_placeholder [] = False"
| "has_placeholder (c # cs) = (match_placeholder (c # cs) \<noteq> None \<or> has_placeholder cs)"

section \<open>Properties of the dispatch layer\<close>

subsection \<open>Query string\<close>

lemma params_set_fresh: "k \<notin> fst ` set ps \<Longrightarrow> params_set ps k v = ps @ [(k, v)]"
  by (induction ps) auto

lemma collect_params_distinct:
  "distinct (map fst es) \<Longrightarrow> fst ` set ps \<inter> fst ` set es = {} \<Longrightarrow>
   collect_params es ps = ps @ surviving_entries es"
proof (induction es arbitrary: ps rule: surviving_entries.induct)
  case 1
  then show ?case by simp
next
  case (2 k es)
  then show ?case by auto
next
  case (3 k v es)
  show ?case
  proof (cases "v = []")
    case True
    with 3 show ?thesis by auto
  next
    case False
    from 3(3,4) have fresh: "k \<notin> fst ` set ps" by auto
    have "fst ` set (ps @ [(k, v)]) \<inter> fst ` set es = {}"
      using 3(3,4) by auto
    moreover have "distinct (map fst es)" using 3(3) by simp
    ultimately have "collect_params es (ps @ [(k, v)]) = (ps @ [(k, v)]) @ surviving_entries es"
      using 3(2) False by blast
    with False fresh show ?thesis by (simp add: params_set_fresh)
  qed
qed

lemma join_nonempty: "xs \<noteq> [] \<Longrightarrow> hd xs \<noteq> [] \<Longrightarrow> join sep xs \<noteq> []"
  by (induction sep xs rule: join.induct) auto

lemma params_toString_empty: "params_toString ps = [] \<longleftrightarrow> ps = []"
proof (cases ps)
  case Nil
  then show ?thesis by (simp add: params_toString_def)
next
  case (Cons p ps')
  then have "join ''&'' (map (\<lambda>(k, v). urlencode k @ ''='' @ urlencode v) ps) \<noteq> []"
    by (intro join_nonempty) (auto split: prod.splits)
  with Cons show ?thesis by (simp add: params_toString_def)
qed

lemma of_char_less_256: "(of_char c :: nat) < 256"
proof -
  have "(of_char c :: nat) mod 256 = of_char c"
    by (rule of_char_mod_256)
  then show ?thesis
    by (metis mod_less_divisor zero_less_numeral)
qed

lemma hex_char_alphabet: "d < 16 \<Longrightarrow> hex_char d \<in> urlencoded_alphabet"
proof -
  assume "d < 16"
  then have "hex_char d \<in> set ''0123456789ABCDEF''"
    unfolding hex_char_def by (intro nth_mem) simp
  then show ?thesis
    unfolding urlencoded_alphabet_def by auto
qed

lemma urlencode_byte_alphabet: "set (urlencode_byte c) \<subseteq> urlencoded_alphabet"
proof -
  have "(of_char c :: nat) div 16 < 16"
    using of_char_less_256 [of c] by (simp add: less_mult_imp_div_less)
  moreover have "(of_char c :: nat) mod 16 < 16"
    by simp
  ultimately have "hex_char (of_char c div 16) \<in> urlencoded_alphabet"
      "hex_char (of_char c mod 16) \<in> urlencoded_alphabet"
    by (auto intro: hex_char_alphabet)
  moreover have "CHR ''+'' \<in> urlencoded_alphabet" "CHR ''%'' \<in> urlencoded_alphabet"
    by (simp_all add: urlencoded_alphabet_def)
  moreover have "urlencoded_plain c \<Longrightarrow> c \<in> urlencoded_alphabet"
    by (auto simp: urlencoded_plain_def urlencoded_alphabet_def)
  ultimately show ?thesis
    by (auto simp: urlencode_byte_def)
qed

lemma urlencode_alphabet: "set (urlencode s) \<subseteq> urlencoded_alphabet"
  using urlencode_byte_alphabet by (auto simp: urlencode_def)

lemma urlencode_no_separator:
  "CHR ''&'' \<notin> set (urlencode s) \<and> CHR ''='' \<notin> set (urlencode s)
   \<and> CHR ''?'' \<notin> set (urlencode s)"
proof -
  have "CHR ''&'' \<notin> urlencoded_alphabet" "CHR ''='' \<notin> urlencoded_alphabet"
    "CHR ''?'' \<notin> urlencoded_alphabet"
    by (simp_all add: urlencoded_alphabet_def)
  with urlencode_alphabet [of s] show ?thesis by blast
qed

text \<open>
  C4. For a query-parameter object (its keys are distinct, as in every object), the URL
  handed to \<^verbatim>\<open>fetch\<close> is the base URL, the endpoint and then, only if at least one entry
  survives the filtering, a \<^verbatim>\<open>?\<close> followed by the surviving entries joined by \<^verbatim>\<open>&\<close>,
  each as its encoded key, \<^verbatim>\<open>=\<close>, and its encoded value, once and in order. Entries whose
  value is undefined or the empty string contribute nothing. An encoded key or value holds
  none of the separators \<^verbatim>\<open>&\<close>, \<^verbatim>\<open>=\<close> and \<^verbatim>\<open>?\<close>, so the entries can be read back from
  the URL.
\<close>

theorem query_string_filtering:
  assumes "queryParams c = Some qp" and "distinct (map fst qp)"
  shows "url (build_request P c) =
           getBaseUrl (target c) @ endpoint c @
             (if surviving_entries qp = [] then []
              else ''?'' @ join ''&'' (map (\<lambda>(k, v). urlencode k @ ''='' @ urlencode v)
                                         (surviving_entries qp)))
       \<and> (\<forall>s. CHR ''&'' \<notin> set (urlencode s) \<and> CHR ''='' \<notin> set (urlencode s)
              \<and> CHR ''?'' \<notin> set (urlencode s))"
proof -
  have "collect_params qp [] = surviving_entries qp"
    using collect_params_distinct [of qp "[]"] assms(2) by simp
  then have "url (build_request P c) =
           getBaseUrl (target c) @ endpoint c @
             (if surviving_entries qp = [] then []
              else ''?'' @ join ''&'' (map (\<lambda>(k, v). urlencode k @ ''='' @ urlencode v)
                                         (surviving_entries qp)))"
    using assms(1) params_toString_empty [of "surviving_entries qp"]
    by (simp add: build_request_def build_url_def Let_def params_toString_def)
  with urlencode_no_separator show ?thesis
    by blast
qed

theorem query_string_filtering_witness:
  "url (build_request (answering not_found_response)
          (list_templates_call (Some ''1 0'') (Some []) None (Some ''a&b=c/d''))) =
   ''https://integrations.messagebird.com/v3/platforms/whatsapp/templates?offset=1+0&channelId=a%26b%3Dc%2Fd''"
proof -
  let ?qp = "[(''offset'', Some ''1 0''), (''limit'', Some []), (''wabaId'', None),
              (''channelId'', Some ''a&b=c/d'')]"
  let ?c = "list_templates_call (Some ''1 0'') (Some []) None (Some ''a&b=c/d'')"
  have q: "queryParams ?c = Some ?qp"
    by (simp add: list_templates_call_def)
  have d: "distinct (map fst ?qp)"
    by simp
  have "getBaseUrl (target ?c) @ endpoint ?c @
          (if surviving_entries ?qp = [] then []
           else ''?'' @ join ''&'' (map (\<lambda>(k, v). urlencode k @ ''='' @ urlencode v)
                                      (surviving_entries ?qp))) =
        ''https://integrations.messagebird.com/v3/platforms/whatsapp/templates?offset=1+0&channelId=a%26b%3Dc%2Fd''"
    by code_simp
  with query_string_filtering [OF q d, of "answering not_found_response"] show ?thesis
    by simp
qed

subsection \<open>Classification of responses\<close>

lemma member_errors_cases:
  assumes "json r \<noteq> Inr JNull" and "json r \<noteq> Inr JUndefined"
  obtains errors where
    "member (case json r of Inl e \<Rightarrow> JObj [] | Inr v \<Rightarrow> v) ''errors'' = Inr errors"
proof (cases "json r")
  case (Inl e)
  then show ?thesis using that by simp
next
  case (Inr b)
  with assms show ?thesis using that by (cases b) auto
qed

lemma handle_response_429:
  assumes "status r = 429" and "json r \<noteq> Inr JNull" and "json r \<noteq> Inr JUndefined"
  shows "handle_response P r =
           Inl (MessageBirdApiError 429 ''Rate limit exceeded. Try again in a moment.'')"
proof -
  obtain errors where
    "member (case json r of Inl e \<Rightarrow> JObj [] | Inr v \<Rightarrow> v) ''errors'' = Inr errors"
    using member_errors_cases [OF assms(2,3)] by blast
  moreover from assms(1) have "\<not> ok r" by (simp add: ok_def)
  ultimately show ?thesis
    using assms(1) by (simp add: handle_response_def Let_def)
qed


text \<open>
  The body is read before the status is compared with 429: a body that parses to \<^verbatim>\<open>null\<close>
  makes the property read \<^verbatim>\<open>error.errors\<close> throw, for every status outside 200-299.
\<close>

lemma null_body_type_error:
  assumes "\<not> ok r" and "json r = Inr JNull"
  shows "handle_response P r =
           Inl (JsError ''TypeError'' ''Cannot read properties of null (reading 'errors')'')"
proof -
  from assms(1) have "status r \<noteq> 204" by (auto simp: ok_def)
  with assms show ?thesis
    by (simp add: handle_response_def)
qed

text \<open>
  The message of the error for the other statuses is a template literal over \<open>msg\<close>, and a
  description that is an object with a member named \<^verbatim>\<open>toString\<close> cannot be converted: the
  handler of the response throws a \<^verbatim>\<open>TypeError\<close> before the \<open>MessageBirdApiError\<close> is made.
\<close>

lemma shadowed_toString_type_error:
  "handle_response P shadowed_toString_response =
     Inl (JsError ''TypeError'' ''Cannot convert object to primitive value'')"
  by (simp add: handle_response_def shadowed_toString_response_def ok_def get_prop_def)







text \<open>
  C2, as the code has it. A response with status 429 whose body does not parse to
  \<^verbatim>\<open>null\<close> makes \<^verbatim>\<open>apiRequest\<close> throw a \<open>MessageBirdApiError\<close> with status 429 and the fixed
  message \<^verbatim>\<open>Rate limit exceeded. Try again in a moment.\<close>, whatever else the body holds and
  also when the body is not JSON at all.
\<close>

theorem rate_limit_error:
  assumes "fetch P (build_request P c) = Inr r" and "status r = 429"
    and "json r \<noteq> Inr JNull" and "json r \<noteq> Inr JUndefined"
  shows "apiRequest P c =
           Inl (MessageBirdApiError 429 ''Rate limit exceeded. Try again in a moment.'')"
  using assms by (simp add: apiRequest_def handle_response_429)

theorem rate_limit_error_witness:
  "apiRequest (answering too_many_response) (list_messages_call None None) =
     Inl (MessageBirdApiError 429 ''Rate limit exceeded. Try again in a moment.'')"
proof -
  have f: "fetch (answering too_many_response)
             (build_request (answering too_many_response) (list_messages_call None None))
           = Inr too_many_response"
    by (simp add: answering_def)
  have h: "status too_many_response = 429" "json too_many_response \<noteq> Inr JNull"
    "json too_many_response \<noteq> Inr JUndefined"
    by (simp_all add: too_many_response_def)
  from rate_limit_error [OF f h] show ?thesis .
qed

text \<open>The message the code throws on 429 is not the one the specification quotes.\<close>

theorem rate_limit_message_counterexample:
  "apiRequest (answering too_many_response) (list_messages_call None None) \<noteq>
     Inl (MessageBirdApiError 429 ''rate limit exceeded, try again shortly.'')"
  by (simp add: apiRequest_def answering_def too_many_response_def handle_response_def ok_def
        get_prop_def)



lemma nat_to_string_404: "nat_to_string 404 = ''404''"
  by code_simp



section \<open>Properties of the message builders\<close>

subsection \<open>send_template\<close>

text \<open>
  C1. With a button suffix, no media header and a non-empty \<open>parameters\<close> list, the
  specification expects the components to carry the body parameters as a typed body block.
  The handler tests \<^verbatim>\<open>components.length > 0\<close> for the body block before the button block
  is pushed, so with no header the body block is skipped: the hsm object below holds the
  button block only, and no \<^verbatim>\<open>params\<close> either. The parameter \<^verbatim>\<open>John\<close> is not sent at all.
\<close>

theorem send_template_button_only_drops_parameters:
  "send_template_hsm ''ns'' ''order_update'' ''en'' (Some [''John'']) None None None (Some ''abc'') =
     [(''namespace'', JStr ''ns''), (''templateName'', JStr ''order_update''),
      (''language'', JObj [(''policy'', JStr ''deterministic''), (''code'', JStr ''en'')]),
      (''components'',
         JArr [JObj [(''type'', JStr ''button''), (''sub_type'', JStr ''url''),
                     (''parameters'', JArr [JObj [(''type'', JStr ''text''), (''text'', JStr ''abc'')]])]])]"
  by (simp add: send_template_hsm_def send_template_header_def given_def nonempty_list_def
        list_of_def delete_prop_def)

text \<open>The same for every such input: only the button block is built.\<close>

lemma send_template_button_only:
  assumes "given button_url_suffix" and "\<not> given header_image_url"
    and "\<not> given header_video_url" and "\<not> given header_document_url"
    and "nonempty_list parameters"
  shows "send_template_hsm namespace template_name language_code parameters
           header_image_url header_video_url header_document_url button_url_suffix =
     [(''namespace'', JStr namespace), (''templateName'', JStr template_name),
      (''language'', JObj [(''policy'', JStr ''deterministic''), (''code'', JStr language_code)]),
      (''components'',
         JArr [JObj [(''type'', JStr ''button''), (''sub_type'', JStr ''url''),
                     (''parameters'',
                        JArr [JObj [(''type'', JStr ''text''), (''text'', opt_str button_url_suffix)]])]])]"
  using assms
  by (simp add: send_template_hsm_def send_template_header_def delete_prop_def)

lemma send_template_with_image:
  assumes "given header_image_url" and "nonempty_list parameters"
  shows "send_template_hsm namespace template_name language_code parameters
           header_image_url header_video_url header_document_url button_url_suffix =
     [(''namespace'', JStr namespace), (''templateName'', JStr template_name),
      (''language'', JObj [(''policy'', JStr ''deterministic''), (''code'', JStr language_code)]),
      (''components'',
         JArr ([JObj [(''type'', JStr ''header''),
                  (''parameters'', JArr [JObj [(''type'', JStr ''image''),
                     (''image'', JObj [(''url'', opt_str header_image_url)])]])],
                JObj [(''type'', JStr ''body''),
                  (''parameters'',
                     JArr (map (\<lambda>p. JObj [(''type'', JStr ''text''), (''text'', JStr p)])
                             (list_of parameters)))]]
               @ (if given button_url_suffix
                  then [JObj [(''type'', JStr ''button''), (''sub_type'', JStr ''url''),
                          (''parameters'',
                             JArr [JObj [(''type'', JStr ''text''),
                                         (''text'', opt_str button_url_suffix)]])]]
                  else [])))]"
  using assms
  by (simp add: send_template_hsm_def send_template_header_def delete_prop_def)

text \<open>
  C5. With an image header URL and a non-empty \<open>parameters\<close> list, the hsm object has no
  \<^verbatim>\<open>params\<close> property and has a \<^verbatim>\<open>components\<close> property: the image header block, then the
  body block with the parameters as text parameters, then the button block if a suffix is
  given.
\<close>

theorem send_template_image_header_shape:
  assumes "given header_image_url" and "nonempty_list parameters"
  shows "map_of (send_template_hsm namespace template_name language_code parameters
                   header_image_url header_video_url header_document_url button_url_suffix)
           ''params'' = None
       \<and> map_of (send_template_hsm namespace template_name language_code parameters
                   header_image_url header_video_url header_document_url button_url_suffix)
           ''components'' =
         Some (JArr ([JObj [(''type'', JStr ''header''),
                  (''parameters'', JArr [JObj [(''type'', JStr ''image''),
                     (''image'', JObj [(''url'', opt_str header_image_url)])]])],
                JObj [(''type'', JStr ''body''),
                  (''parameters'',
                     JArr (map (\<lambda>p. JObj [(''type'', JStr ''text''), (''text'', JStr p)])
                             (list_of parameters)))]]
               @ (if given button_url_suffix
                  then [JObj [(''type'', JStr ''button''), (''sub_type'', JStr ''url''),
                          (''parameters'',
                             JArr [JObj [(''type'', JStr ''text''),
                                         (''text'', opt_str button_url_suffix)]])]]
                  else [])))"
  unfolding send_template_with_image [OF assms] by simp

theorem send_template_image_header_shape_witness:
  "map_of (send_template_hsm ''ns'' ''promo'' ''en'' (Some [''John'', ''42''])
             (Some ''https://example.com/a.png'') None None None) ''params'' = None
   \<and> map_of (send_template_hsm ''ns'' ''promo'' ''en'' (Some [''John'', ''42''])
             (Some ''https://example.com/a.png'') None None None) ''components'' =
     Some (JArr [JObj [(''type'', JStr ''header''),
                  (''parameters'', JArr [JObj [(''type'', JStr ''image''),
                     (''image'', JObj [(''url'', JStr ''https://example.com/a.png'')])]])],
                JObj [(''type'', JStr ''body''),
                  (''parameters'',
                     JArr [JObj [(''type'', JStr ''text''), (''text'', JStr ''John'')],
                           JObj [(''type'', JStr ''text''), (''text'', JStr ''42'')]])]])"
proof -
  have g: "given (Some ''https://example.com/a.png'')"
    by (simp add: given_def)
  have n: "nonempty_list (Some [''John'', ''42''])"
    by (simp add: nonempty_list_def)
  from send_template_image_header_shape [OF g n, of "''ns''" "''promo''" "''en''" None None None]
  show ?thesis
    by (simp add: list_of_def given_def)
qed

subsection \<open>Captions\<close>

text \<open>
  C6. With a non-empty caption: for \<^verbatim>\<open>audio\<close> the body built by \<^verbatim>\<open>send_media\<close> and the
  content built by \<^verbatim>\<open>reply_to_conversation\<close> hold the media object with its \<^verbatim>\<open>url\<close> only,
  no caption anywhere; for \<^verbatim>\<open>image\<close>, \<^verbatim>\<open>video\<close> and \<^verbatim>\<open>file\<close> the media object holds the
  caption after the \<^verbatim>\<open>url\<close>.
\<close>

theorem audio_caption_suppressed:
  assumes "given caption"
  shows "call_body (send_media_call to from ''audio'' media_url caption) =
           Some (JObj [(''to'', JStr to), (''from'', JStr from), (''type'', JStr ''audio''),
                       (''content'', JObj [(''audio'', JObj [(''url'', JStr media_url)])])])
       \<and> (media_type \<in> {''image'', ''video'', ''file''} \<longrightarrow>
            call_body (send_media_call to from media_type media_url caption) =
              Some (JObj [(''to'', JStr to), (''from'', JStr from), (''type'', JStr media_type),
                          (''content'', JObj [(media_type,
                             JObj [(''url'', JStr media_url), (''caption'', opt_str caption)])])]))
       \<and> reply_to_conversation_content ''audio'' text reply_url caption latitude longitude =
            Some [(''audio'', JObj [(''url'', opt_str reply_url)])]
       \<and> (type \<in> {''image'', ''video'', ''file''} \<longrightarrow>
            reply_to_conversation_content type text reply_url caption latitude longitude =
              Some [(type, JObj [(''url'', opt_str reply_url), (''caption'', opt_str caption)])])"
  using assms
  by (auto simp: send_media_call_def send_media_content_def reply_to_conversation_content_def)

theorem audio_caption_suppressed_witness:
  "call_body (send_media_call ''+5511999999999'' ''CH1'' ''audio'' ''https://example.com/a.ogg''
       (Some ''listen'')) =
     Some (JObj [(''to'', JStr ''+5511999999999''), (''from'', JStr ''CH1''), (''type'', JStr ''audio''),
                 (''content'', JObj [(''audio'', JObj [(''url'', JStr ''https://example.com/a.ogg'')])])])
   \<and> reply_to_conversation_content ''image'' None (Some ''https://example.com/a.png'')
        (Some ''listen'') None None =
       Some [(''image'', JObj [(''url'', JStr ''https://example.com/a.png''),
                               (''caption'', JStr ''listen'')])]"
proof -
  have g: "given (Some ''listen'')"
    by (simp add: given_def)
  from audio_caption_suppressed [OF g, of "''+5511999999999''" "''CH1''" "''https://example.com/a.ogg''"
      "''image''" None "Some ''https://example.com/a.png''" None None "''image''"]
  show ?thesis
    by simp
qed

subsection \<open>create_template\<close>

lemma is_digit_not_brace [simp]:
  "\<not> is_digit (CHR ''}'')" "\<not> is_digit (CHR ''{'')" "\<not> is_digit (CHR ''e'')"
  by (simp_all add: is_digit_def)

lemma match_placeholder_intro:
  assumes "ds \<noteq> []" and "\<forall>c\<in>set ds. is_digit c"
  shows "match_placeholder (''{{'' @ ds @ ''}}'' @ r) = Some r"
proof -
  have "takeWhile is_digit (ds @ ''}}'' @ r) = ds"
    using assms(2) by (simp add: takeWhile_append2)
  moreover have "dropWhile is_digit (ds @ ''}}'' @ r) = ''}}'' @ r"
    using assms(2) by (simp add: dropWhile_append2)
  ultimately show ?thesis
    using assms(1) by (simp add: match_placeholder_def)
qed

lemma match_placeholder_elim:
  assumes "match_placeholder s = Some r"
  obtains ds where "s = ''{{'' @ ds @ ''}}'' @ r" and "ds \<noteq> []" and "\<forall>c\<in>set ds. is_digit c"
proof -
  from assms obtain r0 where s: "s = CHR ''{'' # CHR ''{'' # r0"
    and ne: "takeWhile is_digit r0 \<noteq> []"
    and tk: "take 2 (dropWhile is_digit r0) = ''}}''"
    and r: "r = drop 2 (dropWhile is_digit r0)"
    by (auto simp: match_placeholder_def split: list.splits if_splits)
  have "r0 = takeWhile is_digit r0 @ dropWhile is_digit r0"
    by simp
  also have "dropWhile is_digit r0 = take 2 (dropWhile is_digit r0) @ drop 2 (dropWhile is_digit r0)"
    by simp
  finally have "r0 = takeWhile is_digit r0 @ ''}}'' @ r"
    using tk r by simp
  moreover have "\<forall>c\<in>set (takeWhile is_digit r0). is_digit c"
    by (auto dest: set_takeWhileD)
  ultimately show ?thesis
    using that [of "takeWhile is_digit r0"] s ne by simp
qed

lemma match_placeholder_head: "c \<noteq> CHR ''{'' \<Longrightarrow> match_placeholder (c # cs) = None"
  by (simp add: match_placeholder_def split: list.splits)

text \<open>A string without an opening brace is left as it is.\<close>

lemma replace_placeholders_plain:
  "CHR ''{'' \<notin> set s \<Longrightarrow> replace_placeholders s = s"
  by (induction s) (auto simp: match_placeholder_head)

text \<open>Literal text up to a token is copied, the token becomes the fixed string, and the
  replacement goes on behind it.\<close>

lemma replace_placeholders_token:
  assumes "CHR ''{'' \<notin> set pre" and "ds \<noteq> []" and "\<forall>c\<in>set ds. is_digit c"
  shows "replace_placeholders (pre @ ''{{'' @ ds @ ''}}'' @ post) =
           pre @ ''example_value'' @ replace_placeholders post"
  using assms(1)
proof (induction pre)
  case Nil
  have "match_placeholder (CHR ''{'' # CHR ''{'' # ds @ ''}}'' @ post) = Some post"
    using match_placeholder_intro [OF assms(2,3), of post] by simp
  then show ?case by simp
next
  case (Cons c pre)
  then have "c \<noteq> CHR ''{''" and "CHR ''{'' \<notin> set pre"
    by auto
  then show ?case
    using Cons.IH match_placeholder_head [of c "pre @ ''{{'' @ ds @ ''}}'' @ post"]
    by simp
qed

lemma has_placeholder_example: "has_placeholder (''example_value'' @ t) = has_placeholder t"
  by (simp add: match_placeholder_head)

lemma replace_copied_head:
  assumes "replace_placeholders s = x # t" and "x \<noteq> CHR ''e''"
  obtains s' where "s = x # s'" and "replace_placeholders s' = t"
proof (cases s)
  case Nil
  with assms show ?thesis by simp
next
  case (Cons c cs)
  show ?thesis
  proof (cases "match_placeholder (c # cs)")
    case None
    with Cons assms that show ?thesis by simp
  next
    case (Some a)
    with Cons assms show ?thesis by simp
  qed
qed

lemma replace_copied_prefix:
  "replace_placeholders s = p @ t \<Longrightarrow> CHR ''e'' \<notin> set p \<Longrightarrow>
   \<exists>s'. s = p @ s' \<and> replace_placeholders s' = t"
proof (induction p arbitrary: s)
  case Nil
  then show ?case by simp
next
  case (Cons x p)
  from Cons.prems obtain s0 where s0: "s = x # s0" "replace_placeholders s0 = p @ t"
    by (auto elim: replace_copied_head)
  with Cons.IH [of s0] Cons.prems(2) show ?case by auto
qed

text \<open>A token found in the output behind a copied character was a token of the input.\<close>

lemma match_after_replace:
  assumes "match_placeholder (c # replace_placeholders cs) = Some r"
  shows "match_placeholder (c # cs) \<noteq> None"
proof -
  from assms obtain ds where eq: "c # replace_placeholders cs = ''{{'' @ ds @ ''}}'' @ r"
    and ne: "ds \<noteq> []" and dg: "\<forall>c\<in>set ds. is_digit c"
    by (rule match_placeholder_elim)
  from eq have c: "c = CHR ''{''" and rp: "replace_placeholders cs = (CHR ''{'' # ds @ ''}}'') @ r"
    by simp_all
  have "CHR ''e'' \<notin> set (CHR ''{'' # ds @ ''}}'')"
    using dg by auto
  with rp obtain s' where "cs = (CHR ''{'' # ds @ ''}}'') @ s'"
    using replace_copied_prefix by blast
  with c have "c # cs = ''{{'' @ ds @ ''}}'' @ s'"
    by simp
  with match_placeholder_intro [OF ne dg, of s'] show ?thesis
    by simp
qed

text \<open>No token is left in the result.\<close>

lemma replace_placeholders_complete: "\<not> has_placeholder (replace_placeholders s)"
proof (induction s rule: replace_placeholders.induct)
  case 1
  then show ?case by simp
next
  case (2 c cs)
  show ?case
  proof (cases "match_placeholder (c # cs)")
    case None
    with 2 have "\<not> has_placeholder (replace_placeholders cs)" by simp
    moreover have "match_placeholder (c # replace_placeholders cs) = None"
      using None match_after_replace [of c cs]
      by (cases "match_placeholder (c # replace_placeholders cs)") auto
    ultimately show ?thesis using None by simp
  next
    case (Some a)
    with 2 have "\<not> has_placeholder (replace_placeholders a)" by simp
    with Some show ?thesis
      using has_placeholder_example [of "replace_placeholders a"] by simp
  qed
qed

lemma has_placeholder_includes: "has_placeholder s \<Longrightarrow> str_includes s ''{{''"
proof (induction s)
  case Nil
  then show ?case by simp
next
  case (Cons c cs)
  show ?case
  proof (cases "match_placeholder (c # cs)")
    case None
    with Cons show ?thesis by simp
  next
    case (Some r)
    then obtain ds where "c # cs = ''{{'' @ ds @ ''}}'' @ r"
      by (rule match_placeholder_elim)
    then show ?thesis by auto
  qed
qed

lemma create_template_types:
  "map (\<lambda>c. opt_member c ''type'')
       (create_template_components body_text header_type header_text header_example_url
          footer_text button_type button_text button_value body_examples) =
     (if given header_type then [JStr ''HEADER''] else []) @ [JStr ''BODY'']
     @ (if given footer_text then [JStr ''FOOTER''] else [])
     @ (if given button_type \<and> given button_text then [JStr ''BUTTONS''] else [])"
  by (simp add: create_template_components_def Let_def get_prop_def)

lemma create_template_url_button:
  assumes "button_type = Some ''URL''" and "given button_text" and "button_value = Some v"
    and "has_placeholder v"
  shows "last (create_template_components body_text header_type header_text header_example_url
                 footer_text button_type button_text button_value body_examples) =
         JObj [(''type'', JStr ''BUTTONS''),
               (''buttons'', JArr [JObj [(''type'', JStr ''URL''), (''text'', opt_str button_text),
                   (''url'', JStr v), (''example'', JArr [JStr (replace_placeholders v)])]])]"
proof -
  from assms(4) have "v \<noteq> []" by auto
  with assms(3) have gv: "given button_value" by (simp add: given_def)
  from assms(1) have gt: "given button_type" by (simp add: given_def)
  from assms(4) have inc: "str_includes v ''{{''" by (rule has_placeholder_includes)
  show ?thesis
    using assms(1,2,3) gv gt inc
    by (simp add: create_template_components_def Let_def str_of_def)
qed

lemma create_template_call_components:
  "\<exists>requestBody.
     call_body (create_template_call name language category body_text header_type
       header_text header_example_url footer_text button_type button_text button_value
       body_examples waba_id allow_category_change) = Some (JObj requestBody)
     \<and> map_of requestBody ''components'' =
         Some (JArr (create_template_components body_text header_type header_text
           header_example_url footer_text button_type button_text button_value body_examples))"
  by (auto simp: create_template_call_def Let_def split: option.splits)

text \<open>
  C7. The components array of \<^verbatim>\<open>create_template\<close>, which is what the request body carries
  under \<^verbatim>\<open>components\<close>, lists its blocks in the order HEADER, BODY, FOOTER, BUTTONS: the body
  block always, the header block exactly when a header type is given, the footer block
  exactly when a footer text is given, the buttons block exactly when a button type and a
  button text are given. When the button type is URL, a button text is given and the button
  value contains a \<^verbatim>\<open>{{n}}\<close> placeholder, the buttons block is the last one and its single
  button carries \<^verbatim>\<open>url\<close> and an \<^verbatim>\<open>example\<close> array holding the value with its placeholders
  replaced: no placeholder is left in it, literal text without an opening brace is copied,
  and each \<^verbatim>\<open>{{digits}}\<close> token after such text becomes \<^verbatim>\<open>example_value\<close>.
\<close>

theorem create_template_components_order:
  "map (\<lambda>c. opt_member c ''type'')
       (create_template_components body_text header_type header_text header_example_url
          footer_text button_type button_text button_value body_examples) =
     (if given header_type then [JStr ''HEADER''] else []) @ [JStr ''BODY'']
     @ (if given footer_text then [JStr ''FOOTER''] else [])
     @ (if given button_type \<and> given button_text then [JStr ''BUTTONS''] else [])
   \<and> (\<exists>requestBody.
         call_body (create_template_call name language category body_text header_type
           header_text header_example_url footer_text button_type button_text button_value
           body_examples waba_id allow_category_change) = Some (JObj requestBody)
         \<and> map_of requestBody ''components'' =
             Some (JArr (create_template_components body_text header_type header_text
               header_example_url footer_text button_type button_text button_value body_examples)))
   \<and> (\<forall>v. button_type = Some ''URL'' \<and> given button_text \<and> button_value = Some v
            \<and> has_placeholder v \<longrightarrow>
         last (create_template_components body_text header_type header_text header_example_url
                 footer_text button_type button_text button_value body_examples) =
           JObj [(''type'', JStr ''BUTTONS''),
                 (''buttons'', JArr [JObj [(''type'', JStr ''URL''), (''text'', opt_str button_text),
                     (''url'', JStr v), (''example'', JArr [JStr (replace_placeholders v)])]])]
         \<and> \<not> has_placeholder (replace_placeholders v))
   \<and> (\<forall>s. CHR ''{'' \<notin> set s \<longrightarrow> replace_placeholders s = s)
   \<and> (\<forall>pre ds post. CHR ''{'' \<notin> set pre \<and> ds \<noteq> [] \<and> (\<forall>c\<in>set ds. is_digit c) \<longrightarrow>
         replace_placeholders (pre @ ''{{'' @ ds @ ''}}'' @ post) =
           pre @ ''example_value'' @ replace_placeholders post)"
proof (intro conjI allI impI)
  show "map (\<lambda>c. opt_member c ''type'')
       (create_template_components body_text header_type header_text header_example_url
          footer_text button_type button_text button_value body_examples) =
     (if given header_type then [JStr ''HEADER''] else []) @ [JStr ''BODY'']
     @ (if given footer_text then [JStr ''FOOTER''] else [])
     @ (if given button_type \<and> given button_text then [JStr ''BUTTONS''] else [])"
    by (rule create_template_types)
next
  show "\<exists>requestBody.
         call_body (create_template_call name language category body_text header_type
           header_text header_example_url footer_text button_type button_text button_value
           body_examples waba_id allow_category_change) = Some (JObj requestBody)
         \<and> map_of requestBody ''components'' =
             Some (JArr (create_template_components body_text header_type header_text
               header_example_url footer_text button_type button_text button_value body_examples))"
    by (rule create_template_call_components)
next
  fix v
  assume "button_type = Some ''URL'' \<and> given button_text \<and> button_value = Some v
            \<and> has_placeholder v"
  then show "last (create_template_components body_text header_type header_text header_example_url
                 footer_text button_type button_text button_value body_examples) =
           JObj [(''type'', JStr ''BUTTONS''),
                 (''buttons'', JArr [JObj [(''type'', JStr ''URL''), (''text'', opt_str button_text),
                     (''url'', JStr v), (''example'', JArr [JStr (replace_placeholders v)])]])]"
    using create_template_url_button by blast
next
  fix v
  show "\<not> has_placeholder (replace_placeholders v)"
    by (rule replace_placeholders_complete)
next
  fix s :: string
  assume "CHR ''{'' \<notin> set s"
  then show "replace_placeholders s = s"
    by (rule replace_placeholders_plain)
next
  fix pre ds post :: string
  assume "CHR ''{'' \<notin> set pre \<and> ds \<noteq> [] \<and> (\<forall>c\<in>set ds. is_digit c)"
  then show "replace_placeholders (pre @ ''{{'' @ ds @ ''}}'' @ post) =
           pre @ ''example_value'' @ replace_placeholders post"
    using replace_placeholders_token by blast
qed

lemma example_has_placeholder: "has_placeholder ''https://example.com/{{1}}''"
  by (simp add: match_placeholder_def is_digit_def)

lemma example_replaced:
  "replace_placeholders ''https://example.com/{{1}}'' = ''https://example.com/example_value''"
  by (simp add: match_placeholder_def is_digit_def)

theorem create_template_components_order_witness:
  "last (create_template_components ''Hi {{1}}'' (Some ''TEXT'') (Some ''Hello'') None (Some ''bye'')
           (Some ''URL'') (Some ''Open'') (Some ''https://example.com/{{1}}'') (Some [''Ann''])) =
     JObj [(''type'', JStr ''BUTTONS''),
           (''buttons'', JArr [JObj [(''type'', JStr ''URL''), (''text'', JStr ''Open''),
               (''url'', JStr ''https://example.com/{{1}}''),
               (''example'', JArr [JStr ''https://example.com/example_value''])]])]
   \<and> map (\<lambda>c. opt_member c ''type'')
        (create_template_components ''Hi {{1}}'' (Some ''TEXT'') (Some ''Hello'') None (Some ''bye'')
           (Some ''URL'') (Some ''Open'') (Some ''https://example.com/{{1}}'') (Some [''Ann''])) =
       [JStr ''HEADER'', JStr ''BODY'', JStr ''FOOTER'', JStr ''BUTTONS'']"
proof -
  note inst = create_template_components_order [of "''Hi {{1}}''" "Some ''TEXT''" "Some ''Hello''"
      None "Some ''bye''" "Some ''URL''" "Some ''Open''" "Some ''https://example.com/{{1}}''"
      "Some [''Ann'']" "''welcome''" "''en''" "''UTILITY''" None None]
  have g: "given (Some ''Open'')" "given (Some ''TEXT'')" "given (Some ''bye'')" "given (Some ''URL'')"
    by (simp_all add: given_def)
  from inst have "last (create_template_components ''Hi {{1}}'' (Some ''TEXT'') (Some ''Hello'')
      None (Some ''bye'') (Some ''URL'') (Some ''Open'') (Some ''https://example.com/{{1}}'')
      (Some [''Ann''])) =
     JObj [(''type'', JStr ''BUTTONS''),
           (''buttons'', JArr [JObj [(''type'', JStr ''URL''), (''text'', opt_str (Some ''Open'')),
               (''url'', JStr ''https://example.com/{{1}}''),
               (''example'', JArr [JStr (replace_placeholders ''https://example.com/{{1}}'')])]])]"
    using g(1) example_has_placeholder by blast
  then have "last (create_template_components ''Hi {{1}}'' (Some ''TEXT'') (Some ''Hello'')
      None (Some ''bye'') (Some ''URL'') (Some ''Open'') (Some ''https://example.com/{{1}}'')
      (Some [''Ann''])) =
     JObj [(''type'', JStr ''BUTTONS''),
           (''buttons'', JArr [JObj [(''type'', JStr ''URL''), (''text'', JStr ''Open''),
               (''url'', JStr ''https://example.com/{{1}}''),
               (''example'', JArr [JStr ''https://example.com/example_value''])]])]"
    by (simp only: example_replaced opt_str.simps)
  moreover from inst have "map (\<lambda>c. opt_member c ''type'')
        (create_template_components ''Hi {{1}}'' (Some ''TEXT'') (Some ''Hello'') None (Some ''bye'')
           (Some ''URL'') (Some ''Open'') (Some ''https://example.com/{{1}}'') (Some [''Ann''])) =
       [JStr ''HEADER'', JStr ''BODY'', JStr ''FOOTER'', JStr ''BUTTONS'']"
    using g by simp
  ultimately show ?thesis
    by (rule conjI)
qed

section \<open>Properties of the handlers\<close>

subsection \<open>Result shapes\<close>

lemma toolResult_not_toolError: "toolResult P data \<noteq> toolError msg"
  by (simp add: toolResult_def toolError_def)

lemma toolError_inject: "toolError a = toolError b \<Longrightarrow> a = b"
  by (simp add: toolError_def)

lemma wrap_shape:
  "(\<exists>data. try_catch p (request_and_wrap P c) = toolResult P data)
   \<or> (\<exists>m. try_catch p (request_and_wrap P c) = toolError (p @ m))"
  by (cases "apiRequest P c") (auto simp: try_catch_def request_and_wrap_def)

lemma return_shape:
  "(\<exists>data. try_catch p (request_and_return P c fixed) = toolResult P data)
   \<or> (\<exists>m. try_catch p (request_and_return P c fixed) = toolError (p @ m))"
  by (cases "apiRequest P c") (auto simp: try_catch_def request_and_return_def)

lemma reply_shape:
  "(\<exists>data. reply_to_conversation P cid type text media_url caption latitude longitude channel_id
        = toolResult P data)
   \<or> (\<exists>m. reply_to_conversation P cid type text media_url caption latitude longitude channel_id
        = toolError (''Failed to reply to conversation: '' @ m))
   \<or> (type \<notin> set reply_types
       \<and> reply_to_conversation P cid type text media_url caption latitude longitude channel_id
          = toolError (''Unsupported message type: '' @ type))"
proof (cases "reply_to_conversation_call cid type text media_url caption latitude longitude channel_id")
  case (Inl early)
  then have "type \<notin> set reply_types" and "early = toolError (''Unsupported message type: '' @ type)"
    by (auto simp: reply_to_conversation_call_def reply_to_conversation_content_def reply_types_def
          Let_def split: option.splits if_splits)
  with Inl show ?thesis
    by (simp add: reply_to_conversation_def try_catch_def)
next
  case (Inr c)
  with wrap_shape [of "''Failed to reply to conversation: ''" P c] show ?thesis
    unfolding reply_to_conversation_def by auto
qed

lemma update_template_shape:
  "(\<exists>data. update_template P name language waba_id components category = toolResult P data)
   \<or> (\<exists>m. update_template P name language waba_id components category
        = toolError (''Failed to update template: '' @ m))
   \<or> ((\<exists>e. JSON_parse P components = Inl e)
       \<and> update_template P name language waba_id components category
          = toolError ''Invalid JSON in components parameter'')"
proof (cases "update_template_call P name language waba_id components category")
  case (Inl early)
  then have "\<exists>e. JSON_parse P components = Inl e"
    and "early = toolError ''Invalid JSON in components parameter''"
    by (auto simp: update_template_call_def Let_def split: sum.splits)
  with Inl show ?thesis
    by (simp add: update_template_def try_catch_def)
next
  case (Inr c)
  with wrap_shape [of "''Failed to update template: ''" P c] show ?thesis
    unfolding update_template_def by auto
qed

text \<open>
  C8, as the code has it. Whatever the platform does (the request resolving to any
  response or failing with any error), every handler returns a value, and it has exactly
  one of the two shapes: a success result wrapping a payload, or an error-flagged result.
  The message of an error-flagged result starts with the fixed description of the handler
  next to its \<^verbatim>\<open>catch\<close>, with two exceptions, both results returned before any request:
  \<^verbatim>\<open>update_template\<close> answers a \<open>components\<close> text that \<^verbatim>\<open>JSON.parse\<close> rejects with
  \<^verbatim>\<open>Invalid JSON in components parameter\<close>, and \<^verbatim>\<open>reply_to_conversation\<close> answers a type
  outside its six schema values with \<^verbatim>\<open>Unsupported message type: <type>\<close>.
\<close>

theorem handler_result_shapes:
  "((\<exists>data. call_tool P c = toolResult P data) \<noteq> (\<exists>msg. call_tool P c = toolError msg))
   \<and> ((\<exists>msg. call_tool P c = toolError msg) \<longrightarrow>
        (\<exists>m. call_tool P c = toolError (failure_prefix c @ m))
        \<or> (\<exists>name language waba_id components category e.
              c = Update_template name language waba_id components category
              \<and> JSON_parse P components = Inl e
              \<and> call_tool P c = toolError ''Invalid JSON in components parameter'')
        \<or> (\<exists>cid type text media_url caption latitude longitude channel_id.
              c = Reply_to_conversation cid type text media_url caption latitude longitude channel_id
              \<and> type \<notin> set reply_types
              \<and> call_tool P c = toolError (''Unsupported message type: '' @ type)))"
proof -
  have shape: "((\<exists>data. call_tool P c = toolResult P data)
        \<or> (\<exists>m. call_tool P c = toolError (failure_prefix c @ m)))
        \<or> (\<exists>name language waba_id components category e.
              c = Update_template name language waba_id components category
              \<and> JSON_parse P components = Inl e
              \<and> call_tool P c = toolError ''Invalid JSON in components parameter'')
        \<or> (\<exists>cid type text media_url caption latitude longitude channel_id.
              c = Reply_to_conversation cid type text media_url caption latitude longitude channel_id
              \<and> type \<notin> set reply_types
              \<and> call_tool P c = toolError (''Unsupported message type: '' @ type))"
  proof (cases c)
    case (Reply_to_conversation cid ty tx media_url caption latitude longitude channel_id)
    with reply_shape [of P cid ty tx media_url caption latitude longitude channel_id]
    show ?thesis by auto
  next
    case (Update_template name language waba_id components category)
    with update_template_shape [of P name language waba_id components category]
    show ?thesis by auto
  qed (simp_all only: simp_thms call_tool.simps failure_prefix.simps wrap_shape return_shape
        send_text_def send_media_def send_location_def
        send_template_def send_interactive_buttons_def send_interactive_list_def
        list_conversations_def get_conversation_def update_conversation_def
        list_conversation_messages_def get_message_def list_messages_def list_templates_def
        get_template_def create_template_def delete_template_def delete_template_variant_def
        list_contacts_def get_contact_def create_contact_def update_contact_def delete_contact_def)
  let ?ok = "\<exists>data. call_tool P c = toolResult P data"
  let ?err = "\<exists>msg. call_tool P c = toolError msg"
  have excl: "\<not> (?ok \<and> ?err)"
    using toolResult_not_toolError [of P] by metis
  from shape have either: "?ok \<or> ?err"
    by blast
  from excl either have one: "?ok \<noteq> ?err"
    by blast
  have pre: "(\<exists>m. call_tool P c = toolError (failure_prefix c @ m))
        \<or> (\<exists>name language waba_id components category e.
              c = Update_template name language waba_id components category
              \<and> JSON_parse P components = Inl e
              \<and> call_tool P c = toolError ''Invalid JSON in components parameter'')
        \<or> (\<exists>cid type text media_url caption latitude longitude channel_id.
              c = Reply_to_conversation cid type text media_url caption latitude longitude channel_id
              \<and> type \<notin> set reply_types
              \<and> call_tool P c = toolError (''Unsupported message type: '' @ type))"
    if ?err
    using shape excl that by blast
  from one pre show ?thesis
    by blast
qed

theorem handler_result_shapes_witness:
  "call_tool (answering not_found_response) (Get_conversation ''c1'') =
     toolError ''Failed to get conversation: MessageBird API error (404): conversation not found''
   \<and> (\<exists>m. call_tool (answering not_found_response) (Get_conversation ''c1'') =
          toolError (failure_prefix (Get_conversation ''c1'') @ m))"
proof -
  have ev: "call_tool (answering not_found_response) (Get_conversation ''c1'') =
     toolError ''Failed to get conversation: MessageBird API error (404): conversation not found''"
    by (simp add: get_conversation_def try_catch_def request_and_wrap_def apiRequest_def
          answering_def handle_response_def ok_def not_found_response_def get_prop_def
          nat_to_string_404)
  then have "\<exists>msg. call_tool (answering not_found_response) (Get_conversation ''c1'') = toolError msg"
    by blast
  with handler_result_shapes [of "answering not_found_response" "Get_conversation ''c1''"]
  have "\<exists>m. call_tool (answering not_found_response) (Get_conversation ''c1'') =
          toolError (failure_prefix (Get_conversation ''c1'') @ m)"
    by blast
  with ev show ?thesis
    by (rule conjI)
qed

text \<open>An error-flagged result whose message does not start with the handler's description:
  \<^verbatim>\<open>update_template\<close> on a \<open>components\<close> text that is not JSON (here the empty text).\<close>

theorem update_template_invalid_json_counterexample:
  "call_tool (answering created_response) (Update_template ''welcome'' ''en'' ''waba1'' [] None) =
     toolError ''Invalid JSON in components parameter''
   \<and> take (length (failure_prefix (Update_template ''welcome'' ''en'' ''waba1'' [] None)))
        ''Invalid JSON in components parameter''
      \<noteq> failure_prefix (Update_template ''welcome'' ''en'' ''waba1'' [] None)"
  by (simp add: update_template_def update_template_call_def answering_def try_catch_def)

subsection \<open>reply_to_conversation\<close>

lemma request_and_wrap_fetch:
  "request_and_wrap P c =
     (case fetch P (build_request P c) of
        Inl e \<Rightarrow> Inl e
      | Inr r \<Rightarrow> (case handle_response P r of Inl e \<Rightarrow> Inl e | Inr data \<Rightarrow> Inr (toolResult P data)))"
  by (simp add: request_and_wrap_def apiRequest_def split: sum.splits)

lemma reply_text_call:
  assumes "text = None \<or> text = Some []"
  shows "reply_to_conversation_call cid ''text'' text media_url caption latitude longitude channel_id =
     Inr \<lparr> endpoint = ''/conversations/'' @ cid @ ''/messages'', call_method = POST,
           call_body = Some (JObj ([(''type'', JStr ''text''), (''content'', JObj [(''text'', JStr [])])]
                         @ (if given channel_id then [(''channelId'', opt_str channel_id)] else []))),
           queryParams = None, target = conversations \<rparr>"
  using assms
  by (auto simp: reply_to_conversation_call_def reply_to_conversation_content_def Let_def given_def)

lemma reply_schema_type_call:
  assumes "type \<in> set reply_types"
  shows "\<exists>c. reply_to_conversation_call cid type text media_url caption latitude longitude
               channel_id = Inr c"
  using assms
  by (auto simp: reply_to_conversation_call_def reply_to_conversation_content_def reply_types_def
        Let_def)

lemma reply_schema_type_result:
  assumes "type \<in> set reply_types"
  shows "reply_to_conversation P cid type text media_url caption latitude longitude channel_id
           \<noteq> toolError (''Unsupported message type: '' @ type)"
proof
  assume eq: "reply_to_conversation P cid type text media_url caption latitude longitude channel_id
           = toolError (''Unsupported message type: '' @ type)"
  from reply_shape [of P cid type "text" media_url caption latitude longitude channel_id] assms
  consider (ok) data where
      "reply_to_conversation P cid type text media_url caption latitude longitude channel_id
         = toolResult P data"
    | (err) m where
      "reply_to_conversation P cid type text media_url caption latitude longitude channel_id
         = toolError (''Failed to reply to conversation: '' @ m)"
    by blast
  then show False
  proof cases
    case ok
    with eq show False using toolResult_not_toolError [of P data] by simp
  next
    case err
    with eq have "''Failed to reply to conversation: '' @ m = ''Unsupported message type: '' @ type"
      by (auto dest: toolError_inject)
    then show False by simp
  qed
qed

text \<open>
  C10. With type \<^verbatim>\<open>text\<close> and the text absent or empty, \<^verbatim>\<open>reply_to_conversation\<close> does
  not reject the input: it hands \<^verbatim>\<open>fetch\<close> a POST to the messages endpoint of the
  conversation whose body is the serialised \<^verbatim>\<open>{type: "text", content: {text: ""}}\<close> (with
  \<^verbatim>\<open>channelId\<close> when a channel is given), and its result is what the response or failure of
  that request gives. For each of the six types of the schema the handler builds a request
  and its result is never the \<^verbatim>\<open>Unsupported message type\<close> error.
\<close>

theorem reply_text_not_rejected:
  "(text = None \<or> text = Some [] \<longrightarrow>
      reply_to_conversation P conversation_id ''text'' text media_url caption latitude longitude
          channel_id =
        try_catch ''Failed to reply to conversation: ''
          (case fetch P
                  \<lparr> url = ''https://conversations.messagebird.com/v1/conversations/''
                            @ conversation_id @ ''/messages'',
                    request_method = POST,
                    headers = [(''Authorization'', ''AccessKey '' @ API_KEY P),
                               (''Accept'', ''application/json''),
                               (''Content-Type'', ''application/json'')],
                    body = Some (JSON_stringify P
                      (JObj ([(''type'', JStr ''text''), (''content'', JObj [(''text'', JStr [])])]
                             @ (if given channel_id then [(''channelId'', opt_str channel_id)]
                                else [])))) \<rparr> of
             Inl e \<Rightarrow> Inl e
           | Inr r \<Rightarrow>
               (case handle_response P r of
                  Inl e \<Rightarrow> Inl e
                | Inr data \<Rightarrow> Inr (toolResult P data))))
   \<and> (type \<in> set reply_types \<longrightarrow>
        (\<exists>c. reply_to_conversation_call conversation_id type text media_url caption latitude
                longitude channel_id = Inr c)
        \<and> reply_to_conversation P conversation_id type text media_url caption latitude longitude
              channel_id
            \<noteq> toolError (''Unsupported message type: '' @ type))"
proof (intro conjI impI)
  assume t: "text = None \<or> text = Some []"
  show "reply_to_conversation P conversation_id ''text'' text media_url caption latitude longitude
          channel_id =
        try_catch ''Failed to reply to conversation: ''
          (case fetch P
                  \<lparr> url = ''https://conversations.messagebird.com/v1/conversations/''
                            @ conversation_id @ ''/messages'',
                    request_method = POST,
                    headers = [(''Authorization'', ''AccessKey '' @ API_KEY P),
                               (''Accept'', ''application/json''),
                               (''Content-Type'', ''application/json'')],
                    body = Some (JSON_stringify P
                      (JObj ([(''type'', JStr ''text''), (''content'', JObj [(''text'', JStr [])])]
                             @ (if given channel_id then [(''channelId'', opt_str channel_id)]
                                else [])))) \<rparr> of
             Inl e \<Rightarrow> Inl e
           | Inr r \<Rightarrow>
               (case handle_response P r of
                  Inl e \<Rightarrow> Inl e
                | Inr data \<Rightarrow> Inr (toolResult P data)))"
    unfolding reply_to_conversation_def reply_text_call [OF t] request_and_wrap_fetch
    by (simp add: build_request_def build_url_def CONVERSATIONS_BASE_URL_def)
next
  assume "type \<in> set reply_types"
  then show "\<exists>c. reply_to_conversation_call conversation_id type text media_url caption latitude
                longitude channel_id = Inr c"
    by (rule reply_schema_type_call)
next
  assume "type \<in> set reply_types"
  then show "reply_to_conversation P conversation_id type text media_url caption latitude longitude
              channel_id
            \<noteq> toolError (''Unsupported message type: '' @ type)"
    by (rule reply_schema_type_result)
qed

theorem reply_text_not_rejected_witness:
  "reply_to_conversation (answering created_response) ''c1'' ''text'' None None None None None None =
     toolResult (answering created_response) (JObj [(''id'', JStr ''m1'')])
   \<and> ''text'' \<in> set reply_types
   \<and> reply_to_conversation (answering created_response) ''c1'' ''text'' None None None None None None
        \<noteq> toolError (''Unsupported message type: '' @ ''text'')"
proof -
  note inst = reply_text_not_rejected [of None "answering created_response" "''c1''" None None None
      None None "''text''"]
  have m: "''text'' \<in> set reply_types"
    by (simp add: reply_types_def)
  from inst have "reply_to_conversation (answering created_response) ''c1'' ''text'' None None None
      None None None = toolResult (answering created_response) (JObj [(''id'', JStr ''m1'')])"
    by (simp add: answering_def created_response_def handle_response_def ok_def try_catch_def
          given_def)
  moreover from inst m have "reply_to_conversation (answering created_response) ''c1'' ''text''
      None None None None None None \<noteq> toolError (''Unsupported message type: '' @ ''text'')"
    by blast
  ultimately show ?thesis using m by blast
qed

subsection \<open>Empty optional strings\<close>























end
